theory Spec2Isabelle
  imports Complex_Main
begin

section \<open>Numbers, dates and strings\<close>

text \<open>
  The program computes with JavaScript numbers. They are modelled as \<^typ>\<open>real\<close>: every
  statement below is about the exact arithmetic the code writes down, not about the
  binary rounding of each operation. Timestamps (\<open>new Date(s).getTime()\<close>) are
  milliseconds since the epoch, an \<^typ>\<open>int\<close>; the current time, which the code reads with
  \<open>new Date()\<close>, is the explicit parameter \<open>now\<close> of every function that reads it.
\<close>

text \<open>\<open>Math.round\<close> rounds to the nearest integer, a half towards plus infinity.\<close>

definition Math_round :: "real \<Rightarrow> int" where
  "Math_round x = \<lfloor>x + 1 / 2\<rfloor>"

text \<open>
  The pattern \<open>Math.round(x * 10) / 10\<close> that the plan generator writes inline. The
  model rounds the exact value of \<open>x * 10\<close>. In double arithmetic a product that falls
  just short of a half rounds down where the exact value rounds up: \<open>85 * 0.35 * 10\<close>
  evaluates to 297.49999999999994, so a weekly volume of 85 km gives a long run of
  29.7 km in doubles and 29.8 km here (likewise 15.7 against 15.8 km at 45 km). The
  general results below are about the exact arithmetic; the concrete plans evaluated
  below contain no such product up to the weeks they state.
\<close>

definition round_tenth :: "real \<Rightarrow> real" where
  "round_tenth x = real_of_int (Math_round (x * 10)) / 10"

text \<open>Numbers with at most one decimal digit, the values \<open>round_tenth\<close> produces.\<close>

definition tenths :: "real \<Rightarrow> bool" where
  "tenths x = (\<exists>k::int. x = real_of_int k / 10)"

text \<open>Decimal rendering of a count inside a template literal.\<close>

definition digit_char :: "nat \<Rightarrow> char" where
  "digit_char d = ''0123456789'' ! d"

fun show_nat :: "nat \<Rightarrow> string" where
  "show_nat n = (if n < 10 then [digit_char n] else show_nat (n div 10) @ [digit_char (n mod 10)])"

definition DAY_MS :: int where
  "DAY_MS = 24 * 60 * 60 * 1000"

section \<open>Activities\<close>

text \<open>
  The fields of \<open>StravaActivity\<close> that the prediction and plan code reads: \<open>distance\<close> in
  metres, \<open>moving_time\<close> in seconds, \<open>start_date\<close> as the timestamp its ISO string parses
  to, and \<open>type\<close>.
\<close>

record StravaActivity =
  distance :: real
  moving_time :: real
  start_date :: int
  activity_type :: string

text \<open>The pace in minutes per kilometre, \<open>(moving_time / 60) / (distance / 1000)\<close>.\<close>

definition pace_of :: "StravaActivity \<Rightarrow> real" where
  "pace_of a = (moving_time a / 60) / (distance a / 1000)"

section \<open>Race predictions\<close>

text \<open>
  \<open>time\<close> and \<open>pace\<close> are \<open>number | null\<close>: \<open>None\<close> is \<open>null\<close>. The optional display strings
  \<open>formattedTime\<close> and \<open>formattedPace\<close> are produced by formatting helpers of another
  module and are left out.
\<close>

record Prediction =
  available :: bool
  time :: "real option"
  pace :: "real option"
  reason :: string

record Predictions =
  p5K :: Prediction
  p10K :: Prediction
  halfMarathon :: Prediction
  marathon :: Prediction

datatype js_error = TypeError

subsection \<open>analyzeTrainingLoad\<close>

record TrainingLoad =
  tl_weeklyKilometers :: real
  tl_trainingFrequency :: real
  tl_formTrend :: int
  tl_trainingStress :: real
  tl_recentRunCount :: nat

text \<open>
  \<open>weekStart.setDate(weekStart.getDate() - weekStart.getDay())\<close> moves a date back to the
  Sunday of its week, keeping the time of day. The calendar is read in UTC
  (1 January 1970 was a Thursday, day 4).
\<close>

definition getDay :: "int \<Rightarrow> int" where
  "getDay t = (t div DAY_MS + 4) mod 7"

definition weekStart :: "int \<Rightarrow> int" where
  "weekStart t = t - getDay t * DAY_MS"

definition avg_pace :: "StravaActivity list \<Rightarrow> real" where
  "avg_pace rs = foldl (\<lambda>s r. s + pace_of r) 0 rs / real (length rs)"

definition analyzeTrainingLoad :: "int \<Rightarrow> StravaActivity list \<Rightarrow> TrainingLoad" where
  "analyzeTrainingLoad now activities =
    (let fourWeeksAgo = now - 28 * DAY_MS;
         twelveWeeksAgo = now - 84 * DAY_MS;
         recentRuns = filter (\<lambda>a. start_date a \<ge> fourWeeksAgo \<and> activity_type a = ''Run'') activities;
         longerTermRuns = filter (\<lambda>a. start_date a \<ge> twelveWeeksAgo \<and> activity_type a = ''Run'') activities;
         weeklyKilometers = foldl (\<lambda>total run. total + distance run / 1000) 0 recentRuns / 4;
         totalWeeks = 4;
         weeksWithRuns = remdups (map (\<lambda>run. weekStart (start_date run)) recentRuns);
         trainingFrequency = real (length weeksWithRuns) / totalWeeks;
         sorted = sort_key start_date longerTermRuns;
         sortedByDate = drop (length sorted - 10) sorted;
         formTrend =
           (if length sortedByDate \<ge> 6 then
              (let firstHalf = take (length sortedByDate div 2) sortedByDate;
                   secondHalf = drop (length sortedByDate div 2) sortedByDate;
                   firstHalfAvgPace = avg_pace firstHalf;
                   secondHalfAvgPace = avg_pace secondHalf;
                   improvement = (firstHalfAvgPace - secondHalfAvgPace) / firstHalfAvgPace
               in if improvement > 0.05 then 1 else if improvement < - 0.05 then - 1 else 0)
            else 0);
         avgWeeklyVolume = weeklyKilometers;
         consistencyBonus = trainingFrequency * 0.2;
         formBonus = real_of_int formTrend * 0.1;
         trainingStress = min 1.0 (avgWeeklyVolume / 30 + consistencyBonus + formBonus)
     in \<lparr> tl_weeklyKilometers = weeklyKilometers,
          tl_trainingFrequency = trainingFrequency,
          tl_formTrend = formTrend,
          tl_trainingStress = trainingStress,
          tl_recentRunCount = length recentRuns \<rparr>)"

subsection \<open>getSimilarDistanceRange and getDistanceAdjustmentFactor\<close>

definition getSimilarDistanceRange :: "real \<Rightarrow> real \<times> real" where
  "getSimilarDistanceRange targetDistance =
    (if targetDistance \<le> 5 then (targetDistance * 0.8, targetDistance * 1.2)
     else if targetDistance \<le> 10 then (targetDistance * 0.7, targetDistance * 1.3)
     else if targetDistance \<le> 21.1 then (targetDistance * 0.6, targetDistance * 1.4)
     else (targetDistance * 0.5, targetDistance * 1.5))"

definition getDistanceAdjustmentFactor :: "real \<Rightarrow> real \<Rightarrow> real" where
  "getDistanceAdjustmentFactor fromDistance toDistance =
    (let ratio = toDistance / fromDistance;
         baseAdjustment = ratio powr 0.06;
         extrapolationPenalty = (if ratio > 4 then 1 + (ln ratio - ln 4) * 0.02 else 1)
     in baseAdjustment * extrapolationPenalty)"

subsection \<open>estimatePaceFromTraining\<close>

record TrainingRun =
  r_distance :: real
  r_pace :: real
  r_time :: real
  r_date :: int
  r_daysAgo :: int

record WeightedRun = TrainingRun +
  weight :: real
  weightedPace :: real

text \<open>The pool \<open>validRuns\<close>: filtered, converted, filtered by pace, sorted by age (stable).\<close>

definition validRuns :: "int \<Rightarrow> StravaActivity list \<Rightarrow> TrainingRun list" where
  "validRuns now activities =
    sort_key r_daysAgo
      (filter (\<lambda>run. r_pace run > 2.5 \<and> r_pace run < 12)
        (map (\<lambda>a. \<lparr> r_distance = distance a / 1000,
                     r_pace = (moving_time a / 60) / (distance a / 1000),
                     r_time = moving_time a,
                     r_date = start_date a,
                     r_daysAgo = \<lfloor>real_of_int (now - start_date a) / real_of_int DAY_MS\<rfloor> \<rparr>)
          (filter (\<lambda>a. distance a > 1000 \<and> moving_time a > 0 \<and> distance a < 50000) activities)))"

definition weightedRuns :: "TrainingRun list \<Rightarrow> WeightedRun list" where
  "weightedRuns runs =
    map (\<lambda>run. let ageWeight = max 0.3 (1 - (real_of_int (r_daysAgo run) / 90) * 0.7)
               in TrainingRun.extend run
                    (WeightedRun.fields ageWeight (r_pace run * ageWeight))) runs"

text \<open>The sorted raw paces and the band \<open>[q1 - 1.5 * iqr, q3 + 1.5 * iqr]\<close>.\<close>

definition sorted_paces :: "WeightedRun list \<Rightarrow> real list" where
  "sorted_paces wruns = sort (map r_pace wruns)"

definition quartile1 :: "WeightedRun list \<Rightarrow> real" where
  "quartile1 wruns = sorted_paces wruns ! nat \<lfloor>real (length (sorted_paces wruns)) * 0.25\<rfloor>"

definition quartile3 :: "WeightedRun list \<Rightarrow> real" where
  "quartile3 wruns = sorted_paces wruns ! nat \<lfloor>real (length (sorted_paces wruns)) * 0.75\<rfloor>"

definition lowerBound :: "WeightedRun list \<Rightarrow> real" where
  "lowerBound wruns = quartile1 wruns - 1.5 * (quartile3 wruns - quartile1 wruns)"

definition upperBound :: "WeightedRun list \<Rightarrow> real" where
  "upperBound wruns = quartile3 wruns + 1.5 * (quartile3 wruns - quartile1 wruns)"

text \<open>The result of the \<open>filter\<close> call, before the fallback pushes anything.\<close>

definition iqrFiltered :: "WeightedRun list \<Rightarrow> WeightedRun list" where
  "iqrFiltered wruns =
    filter (\<lambda>run. r_pace run \<ge> lowerBound wruns \<and> r_pace run \<le> upperBound wruns) wruns"

definition filteredRuns :: "WeightedRun list \<Rightarrow> WeightedRun list" where
  "filteredRuns wruns =
    (if length (iqrFiltered wruns) = 0 then iqrFiltered wruns @ take 5 wruns
     else iqrFiltered wruns)"

text \<open>
  \<open>reduce\<close> without an initial value starts from the first element and throws a
  \<open>TypeError\<close> on an empty array.
\<close>

definition reduce_fastest :: "WeightedRun list \<Rightarrow> js_error + WeightedRun" where
  "reduce_fastest runs =
    (case runs of
       [] \<Rightarrow> Inl TypeError
     | r # rs \<Rightarrow> Inr (foldl (\<lambda>best current. if r_pace current < r_pace best then current else best) r rs))"

definition estimatePaceFromTraining ::
    "int \<Rightarrow> StravaActivity list \<Rightarrow> real \<Rightarrow> js_error + real option" where
  "estimatePaceFromTraining now activities targetDistance =
    (let valid = validRuns now activities
     in if length valid = 0 then Inr None
        else
          (case reduce_fastest (filteredRuns (weightedRuns valid)) of
             Inl e \<Rightarrow> Inl e
           | Inr bestRun \<Rightarrow>
               Inr (Some (r_pace bestRun *
                          getDistanceAdjustmentFactor (r_distance bestRun) targetDistance))))"

subsection \<open>calculateDistancePrediction\<close>

definition similarRuns :: "StravaActivity list \<Rightarrow> real \<Rightarrow> StravaActivity list" where
  "similarRuns activities distanceKm =
    (let similarDistances = getSimilarDistanceRange distanceKm
     in filter (\<lambda>a. distance a \<ge> fst similarDistances * 1000 \<and>
                    distance a \<le> snd similarDistances * 1000 \<and>
                    moving_time a > 0) activities)"

definition bestSimilarRun :: "StravaActivity \<Rightarrow> StravaActivity list \<Rightarrow> StravaActivity" where
  "bestSimilarRun r rs =
    foldl (\<lambda>best current.
             if moving_time current / (distance current / 1000) < moving_time best / (distance best / 1000)
             then current else best) r rs"

text \<open>\<open>!predictedPace\<close> holds for \<open>null\<close> and for the number zero.\<close>

definition calculateDistancePrediction ::
    "int \<Rightarrow> StravaActivity list \<Rightarrow> real \<Rightarrow> js_error + Prediction" where
  "calculateDistancePrediction now activities distanceKm =
    (let trainingLoad = analyzeTrainingLoad now activities;
         predicted =
           (case similarRuns activities distanceKm of
              r # rs \<Rightarrow>
                (let bestRun = bestSimilarRun r rs
                 in Inr (Some ((moving_time bestRun / 60) / (distance bestRun / 1000))))
            | [] \<Rightarrow> estimatePaceFromTraining now activities distanceKm)
     in case predicted of
          Inl e \<Rightarrow> Inl e
        | Inr predictedPace0 \<Rightarrow>
            (if predictedPace0 = None \<or> predictedPace0 = Some 0 then
               Inr \<lparr> available = False, time = None, pace = None,
                     reason = ''Insufficient data for prediction'' \<rparr>
             else
               (let trainingAdjustment = 1 + (tl_trainingStress trainingLoad - 0.5) * 0.05;
                    predictedPace1 = the predictedPace0 * trainingAdjustment;
                    formAdjustment =
                      (if tl_formTrend trainingLoad = 1 then 0.98
                       else if tl_formTrend trainingLoad = - 1 then 1.02 else 1.0);
                    predictedPace = predictedPace1 * formAdjustment;
                    predictedTime = predictedPace * distanceKm
                in Inr \<lparr> available = True, time = Some predictedTime, pace = Some predictedPace,
                         reason = '''' \<rparr>)))"

subsection \<open>calculateRacePredictions\<close>

definition minRuns5K :: nat where "minRuns5K = 5"
definition minRuns10K :: nat where "minRuns10K = 10"
definition minRunsLong :: nat where "minRunsLong = 20"

definition recentActivities :: "int \<Rightarrow> StravaActivity list \<Rightarrow> StravaActivity list" where
  "recentActivities now activities =
    (let twentyFourWeeksAgo = now - 24 * 7 * DAY_MS
     in filter (\<lambda>a. start_date a \<ge> twentyFourWeeksAgo \<and> activity_type a = ''Run'') activities)"

definition unavailable :: "string \<Rightarrow> Prediction" where
  "unavailable r = \<lparr> available = False, time = None, pace = None, reason = r \<rparr>"

definition shortfall_reason :: "nat \<Rightarrow> string" where
  "shortfall_reason n =
    ''Need at least '' @ show_nat minRuns5K @ '' runs in the last 24 weeks. Currently have ''
      @ show_nat n @ ''.''"

definition calculateRacePredictions :: "int \<Rightarrow> StravaActivity list \<Rightarrow> js_error + Predictions" where
  "calculateRacePredictions now activities =
    (let recent = recentActivities now activities
     in if length recent < minRuns5K then
          (let reason = shortfall_reason (length recent)
           in Inr \<lparr> p5K = unavailable reason, p10K = unavailable reason,
                    halfMarathon = unavailable reason, marathon = unavailable reason \<rparr>)
        else
          (case calculateDistancePrediction now recent 5 of Inl e \<Rightarrow> Inl e | Inr d5 \<Rightarrow>
          (case calculateDistancePrediction now recent 10 of Inl e \<Rightarrow> Inl e | Inr d10 \<Rightarrow>
          (case calculateDistancePrediction now recent 21.1 of Inl e \<Rightarrow> Inl e | Inr dh \<Rightarrow>
          (case calculateDistancePrediction now recent 42.2 of Inl e \<Rightarrow> Inl e | Inr dm \<Rightarrow>
             Inr \<lparr> p5K = (if length recent \<ge> minRuns5K then d5\<lparr>available := True\<rparr>
                           else d5\<lparr>reason := ''Need '' @ show_nat minRuns5K @ '' runs for 5K prediction''\<rparr>),
                   p10K = (if length recent \<ge> minRuns10K then d10\<lparr>available := True\<rparr>
                           else d10\<lparr>reason := ''Need '' @ show_nat minRuns10K @ '' runs for 10K prediction''\<rparr>),
                   halfMarathon =
                          (if length recent \<ge> minRunsLong then dh\<lparr>available := True\<rparr>
                           else dh\<lparr>reason := ''Need '' @ show_nat minRunsLong @ '' runs for half marathon prediction''\<rparr>),
                   marathon =
                          (if length recent \<ge> minRunsLong then dm\<lparr>available := True\<rparr>
                           else dm\<lparr>reason := ''Need '' @ show_nat minRunsLong @ '' runs for marathon prediction''\<rparr>) \<rparr>)))))"

section \<open>Pacing strategy\<close>

datatype Strategy = Even | Negative | Positive

text \<open>
  The numeric fields of a split and its strategy note; the three formatted strings come
  from formatting helpers of another module and are left out, as is the list of
  recommendation texts of the strategy.
\<close>

record PacingSplit =
  splitNumber :: nat
  split_distance :: real
  targetPace :: real
  split_targetTime :: real
  cumulativeDistance :: real
  cumulativeTime :: real
  split_strategy :: string

record PacingStrategy =
  raceDistance :: real
  targetTime :: real
  averagePace :: real
  strategy :: Strategy
  splits :: "PacingSplit list"

text \<open>\<open>i <= Math.floor(d) ? 1 : d % 1\<close>; the loop only runs for a positive \<open>d\<close>.\<close>

definition splitDistance :: "real \<Rightarrow> nat \<Rightarrow> real" where
  "splitDistance raceDistanceKm i =
    (if real i \<le> real_of_int \<lfloor>raceDistanceKm\<rfloor> then 1 else frac raceDistanceKm)"

text \<open>The pace and note of split \<open>i\<close>: strategy modulation, then the fatigue factor.\<close>

definition splitPace :: "real \<Rightarrow> real \<Rightarrow> Strategy \<Rightarrow> nat \<Rightarrow> real \<times> string" where
  "splitPace raceDistanceKm predictedPace strat i =
    (let progressRatio = real i / real_of_int \<lceil>raceDistanceKm\<rceil>;
         (targetPace0, strategyNote0) =
           (case strat of
              Negative \<Rightarrow>
                (if progressRatio \<le> 0.5 then (predictedPace * 1.02, ''Start conservative'')
                 else (predictedPace * 0.98, ''Push harder''))
            | Positive \<Rightarrow>
                (if progressRatio \<le> 0.5 then (predictedPace * 0.98, ''Fast start'')
                 else (predictedPace * 1.02, ''Maintain effort''))
            | Even \<Rightarrow> (predictedPace, ''Even pace''))
     in if raceDistanceKm \<ge> 21.1 then
          (let fatigueRatio = real i / real_of_int \<lceil>raceDistanceKm\<rceil>
           in if fatigueRatio > 0.75 then
                (let fatigueFactor = 1 + (fatigueRatio - 0.75) * 0.04
                 in (targetPace0 * fatigueFactor,
                     if strat = Even then ''Manage fatigue'' else strategyNote0))
              else (targetPace0, strategyNote0))
        else (targetPace0, strategyNote0))"

text \<open>
  The body of the \<open>for\<close> loop, run over the remaining split numbers with the two running
  totals \<open>cumulativeDistance\<close> and \<open>cumulativeTime\<close>.
\<close>

fun pacingLoop :: "real \<Rightarrow> real \<Rightarrow> Strategy \<Rightarrow> nat list \<Rightarrow> real \<Rightarrow> real \<Rightarrow> PacingSplit list" where
  "pacingLoop d p strat [] cumDist cumTime = []"
| "pacingLoop d p strat (i # rest) cumDist cumTime =
    (let sd = splitDistance d i;
         tp = fst (splitPace d p strat i);
         splitTime = tp * sd;
         cumDist' = cumDist + sd;
         cumTime' = cumTime + splitTime
     in \<lparr> splitNumber = i, split_distance = sd, targetPace = tp, split_targetTime = splitTime,
          cumulativeDistance = cumDist', cumulativeTime = cumTime',
          split_strategy = snd (splitPace d p strat i) \<rparr>
        # pacingLoop d p strat rest cumDist' cumTime')"

definition generatePacingStrategy :: "real \<Rightarrow> real \<Rightarrow> Strategy \<Rightarrow> PacingStrategy" where
  "generatePacingStrategy raceDistanceKm predictedPace strat =
    \<lparr> raceDistance = raceDistanceKm,
      targetTime = predictedPace * raceDistanceKm,
      averagePace = predictedPace,
      strategy = strat,
      splits = pacingLoop raceDistanceKm predictedPace strat
                 [1 ..< Suc (nat \<lceil>raceDistanceKm\<rceil>)] 0 0 \<rparr>"

section \<open>Training metrics and pace zones\<close>

record PaceZone =
  zmin :: real
  zmax :: real

record PaceZones =
  easy :: PaceZone
  tempo :: PaceZone
  threshold :: PaceZone
  interval :: PaceZone
  long :: PaceZone

datatype WeeklyTrend = Increasing | Stable | Decreasing

record DetailedTrainingMetrics =
  activities :: "StravaActivity list"
  recentRunCount :: real
  weeklyKilometers :: real
  avgPace :: real
  longestRun :: real
  paceZones :: PaceZones
  weeklyTrend :: WeeklyTrend
  consistencyScore :: real
  avgLongRun :: real
  recentPaceImprovement :: real

definition sum_km :: "StravaActivity list \<Rightarrow> real" where
  "sum_km rs = foldl (\<lambda>sum r. sum + distance r / 1000) 0 rs"

text \<open>The trailing-4-week average pace, or the caller's \<open>avgPace\<close> when there is no run.\<close>

definition recentAvgPace :: "int \<Rightarrow> StravaActivity list \<Rightarrow> real \<Rightarrow> real" where
  "recentAvgPace now acts avgPace0 =
    (let fourWeeksAgo = now - 28 * DAY_MS;
         recentRuns = filter (\<lambda>a. start_date a \<ge> fourWeeksAgo) acts
     in if length recentRuns > 0 then avg_pace recentRuns else avgPace0)"

definition zonesFor :: "real \<Rightarrow> PaceZones" where
  "zonesFor recentAvg =
    (let easyPaceMin = recentAvg * 1.15;
         easyPaceMax = recentAvg * 1.3;
         tempoPaceMin = recentAvg * 0.9;
         tempoPaceMax = recentAvg * 0.95;
         thresholdPaceMin = recentAvg * 0.85;
         thresholdPaceMax = recentAvg * 0.9;
         intervalPaceMin = recentAvg * 0.75;
         intervalPaceMax = recentAvg * 0.85;
         longPaceMin = recentAvg * 1.1;
         longPaceMax = recentAvg * 1.2
     in \<lparr> easy = \<lparr> zmin = easyPaceMin, zmax = easyPaceMax \<rparr>,
          tempo = \<lparr> zmin = tempoPaceMin, zmax = tempoPaceMax \<rparr>,
          threshold = \<lparr> zmin = thresholdPaceMin, zmax = thresholdPaceMax \<rparr>,
          interval = \<lparr> zmin = intervalPaceMin, zmax = intervalPaceMax \<rparr>,
          long = \<lparr> zmin = longPaceMin, zmax = longPaceMax \<rparr> \<rparr>)"

definition calculateDetailedMetrics ::
    "int \<Rightarrow> StravaActivity list \<Rightarrow> real \<Rightarrow> real \<Rightarrow> real \<Rightarrow> real \<Rightarrow> DetailedTrainingMetrics" where
  "calculateDetailedMetrics now acts weeklyKm avgPace0 longestRun0 recentRunCount0 =
    (let fourWeeksAgo = now - 28 * DAY_MS;
         eightWeeksAgo = now - 56 * DAY_MS;
         recentRuns = filter (\<lambda>a. start_date a \<ge> fourWeeksAgo) acts;
         olderRuns = filter (\<lambda>a. start_date a \<ge> eightWeeksAgo \<and> start_date a < fourWeeksAgo) acts;
         recentAvg = recentAvgPace now acts avgPace0;
         olderAvgPace = (if length olderRuns > 0 then avg_pace olderRuns else recentAvg);
         paceImprovement =
           (if olderAvgPace > 0 then ((olderAvgPace - recentAvg) / olderAvgPace) * 100 else 0);
         quarter = length recentRuns div 4;
         week1km = sum_km (take quarter recentRuns);
         week4km = sum_km (if quarter = 0 then recentRuns
                           else drop (length recentRuns - quarter) recentRuns);
         trend =
           (if week4km > week1km * 1.1 then Increasing
            else if week4km < week1km * 0.9 then Decreasing else Stable);
         consistency = min 100 ((recentRunCount0 / 16) * 100);
         sortedByDistance = sort_key (\<lambda>a. - distance a) recentRuns;
         longRuns = take (max 1 (nat \<lceil>real (length sortedByDistance) * 0.25\<rceil>)) sortedByDistance;
         avgLong =
           (if length longRuns > 0 then sum_km longRuns / real (length longRuns) else longestRun0)
     in \<lparr> activities = acts,
          recentRunCount = recentRunCount0,
          weeklyKilometers = weeklyKm,
          avgPace = recentAvg,
          longestRun = longestRun0,
          paceZones = zonesFor recentAvg,
          weeklyTrend = trend,
          consistencyScore = consistency,
          avgLongRun = avgLong,
          recentPaceImprovement = paceImprovement \<rparr>)"

section \<open>Training plan\<close>

datatype RaceDistance = Race5K | Race10K | RaceHalfMarathon | RaceMarathon

fun RACE_DISTANCES :: "RaceDistance \<Rightarrow> real" where
  "RACE_DISTANCES Race5K = 5"
| "RACE_DISTANCES Race10K = 10"
| "RACE_DISTANCES RaceHalfMarathon = 21.1"
| "RACE_DISTANCES RaceMarathon = 42.2"

text \<open>
  Dates of the goal are the timestamps their ISO strings parse to; an absent or empty
  optional string is \<open>None\<close>.
\<close>

record RaceGoal =
  goal_date :: int
  goal_startDate :: "int option"
  goal_distance :: RaceDistance
  goal_targetTime :: "string option"
  runsPerWeek :: int
  trainingDays :: "int list option"

datatype WorkoutType =
  EasyRun | LongRun | TempoRun | Intervals | RecoveryRun | Rest | CrossTraining | RaceDay

datatype Intensity = Low | Medium | High

datatype Phase = Base | Build | Peak | Taper

text \<open>
  A workout without its free-text \<open>description\<close>; \<open>w_distance\<close> is the optional
  \<open>distance\<close> (absent on rest days).
\<close>

record Workout =
  day :: string
  w_type :: WorkoutType
  w_distance :: "real option"
  intensity :: Intensity

text \<open>A week without its \<open>weekStartDate\<close> string and its free-text \<open>notes\<close>.\<close>

record WeeklyPlan =
  weekNumber :: int
  focus :: string
  totalKilometers :: real
  workouts :: "Workout list"

subsection \<open>getWeeksUntilRace\<close>

definition getWeeksUntilRace :: "int \<Rightarrow> int \<Rightarrow> int option \<Rightarrow> int" where
  "getWeeksUntilRace now raceDate startDate0 =
    (let start = (case startDate0 of Some s \<Rightarrow> s | None \<Rightarrow> now);
         diffTime = raceDate - start;
         diffDays = \<lceil>real_of_int diffTime / real_of_int DAY_MS\<rceil>
     in \<lceil>real_of_int diffDays / 7\<rceil>)"

subsection \<open>assessFitnessLevel\<close>

definition assessFitnessLevel :: "DetailedTrainingMetrics \<Rightarrow> RaceDistance \<Rightarrow> string" where
  "assessFitnessLevel metrics raceDist =
    (let targetDistance = RACE_DISTANCES raceDist;
         weeklyToRaceRatio = weeklyKilometers metrics / targetDistance;
         longRunRatio = avgLongRun metrics / targetDistance;
         consistency = consistencyScore metrics / 100;
         score0 = (0::real);
         score1 = score0 + (if weeklyToRaceRatio \<ge> 2.5 then 40
                            else if weeklyToRaceRatio \<ge> 1.8 then 30
                            else if weeklyToRaceRatio \<ge> 1.2 then 20 else 10);
         score2 = score1 + (if longRunRatio \<ge> 0.7 then 25
                            else if longRunRatio \<ge> 0.5 then 18
                            else if longRunRatio \<ge> 0.3 then 10 else 5);
         score3 = score2 + consistency * 20;
         score4 = score3 + (if recentRunCount metrics \<ge> 16 then 15
                            else if recentRunCount metrics \<ge> 12 then 10
                            else if recentRunCount metrics \<ge> 8 then 5 else 0);
         score = score4 + max (- 5) (min 10 (recentPaceImprovement metrics))
     in if score \<ge> 75 then ''Advanced''
        else if score \<ge> 50 then ''Intermediate''
        else ''Beginner'')"

subsection \<open>generateWorkout\<close>

definition days :: "string list" where
  "days = [''Monday'', ''Tuesday'', ''Wednesday'', ''Thursday'', ''Friday'', ''Saturday'', ''Sunday'']"

text \<open>\<open>customTrainingDays && customTrainingDays.length > 0\<close>\<close>

definition hasCustomDays :: "int list option \<Rightarrow> bool" where
  "hasCustomDays customTrainingDays =
    (case customTrainingDays of None \<Rightarrow> False | Some ds \<Rightarrow> length ds > 0)"

definition runDays :: "int \<Rightarrow> int list option \<Rightarrow> int list" where
  "runDays rpw customTrainingDays =
    (if hasCustomDays customTrainingDays then the customTrainingDays
     else if rpw = 2 then [2, 6]
     else if rpw = 3 then [1, 4, 6]
     else if rpw = 4 then [1, 2, 5, 6]
     else if rpw = 5 then [1, 2, 3, 5, 6]
     else if rpw = 6 then [1, 2, 3, 4, 5, 6]
     else [0, 1, 2, 3, 4, 5, 6])"

text \<open>Reading an array at an index: \<open>undefined\<close> (here \<open>None\<close>) out of range.\<close>

definition at_index :: "'a list \<Rightarrow> nat \<Rightarrow> 'a option" where
  "at_index xs i = (if i < length xs then Some (xs ! i) else None)"

definition isQualityDay :: "int \<Rightarrow> int \<Rightarrow> int list option \<Rightarrow> bool" where
  "isQualityDay dayOfWeek rpw customTrainingDays =
    (if hasCustomDays customTrainingDays then
       (let rd = runDays rpw customTrainingDays;
            qualityIndices =
              (if rpw = 2 then [0]
               else if rpw = 3 then [1]
               else if rpw \<ge> 4 then [length rd div 3, (length rd * 2) div 3]
               else []);
            qualityDays = map (at_index rd) qualityIndices
        in Some dayOfWeek \<in> set qualityDays)
     else
       (if rpw = 2 \<and> dayOfWeek = 2 then True
        else if rpw = 3 \<and> dayOfWeek = 4 then True
        else if rpw \<ge> 4 \<and> (dayOfWeek = 2 \<or> dayOfWeek = 5) then True
        else False))"

text \<open>
  The distance of a quality or easy run day: the 65% left by the long run, shared among
  the other entries of the run-day list.
\<close>

definition otherRunDistance :: "real \<Rightarrow> int list \<Rightarrow> real" where
  "otherRunDistance weekKilometers rd =
    (let longRunKm = weekKilometers * 0.35;
         remainingKm = weekKilometers - longRunKm;
         otherRunDays = int (length rd) - 1
     in if otherRunDays > 0 then round_tenth (remainingKm / real_of_int otherRunDays) else 0)"

definition generateWorkout ::
    "Phase \<Rightarrow> int \<Rightarrow> real \<Rightarrow> DetailedTrainingMetrics \<Rightarrow> RaceDistance \<Rightarrow> int \<Rightarrow> int list option \<Rightarrow> Workout" where
  "generateWorkout phase dayOfWeek weekKilometers metrics raceDist rpw customTrainingDays =
    (let rd = runDays rpw customTrainingDays
     in if dayOfWeek \<notin> set rd then
          \<lparr> day = days ! nat dayOfWeek, w_type = Rest, w_distance = None, intensity = Low \<rparr>
        else if dayOfWeek = last rd then
          (let longRunDistance = round_tenth (weekKilometers * 0.35)
           in \<lparr> day = days ! nat dayOfWeek, w_type = LongRun, w_distance = Some longRunDistance,
                intensity = (if phase = Peak then Medium else Low) \<rparr>)
        else if isQualityDay dayOfWeek rpw customTrainingDays then
          (let qualityDistance = otherRunDistance weekKilometers rd
           in case phase of
                Base \<Rightarrow> \<lparr> day = days ! nat dayOfWeek, w_type = EasyRun,
                          w_distance = Some qualityDistance, intensity = Low \<rparr>
              | Build \<Rightarrow> \<lparr> day = days ! nat dayOfWeek, w_type = TempoRun,
                           w_distance = Some qualityDistance, intensity = High \<rparr>
              | Peak \<Rightarrow> \<lparr> day = days ! nat dayOfWeek, w_type = Intervals,
                          w_distance = Some qualityDistance, intensity = High \<rparr>
              | Taper \<Rightarrow> \<lparr> day = days ! nat dayOfWeek, w_type = EasyRun,
                           w_distance = Some qualityDistance, intensity = Low \<rparr>)
        else
          (let easyDistance = otherRunDistance weekKilometers rd
           in \<lparr> day = days ! nat dayOfWeek, w_type = EasyRun, w_distance = Some easyDistance,
                intensity = Low \<rparr>))"

subsection \<open>generateWeeklyPlan\<close>

definition weeksRemaining :: "int \<Rightarrow> int \<Rightarrow> int" where
  "weeksRemaining weeksUntilRace weekNo = weeksUntilRace - weekNo + 1"

definition isRecoveryWeek :: "int \<Rightarrow> int \<Rightarrow> bool" where
  "isRecoveryWeek weeksUntilRace weekNo =
    (weekNo mod 4 = 0 \<and> weeksRemaining weeksUntilRace weekNo > 3)"

text \<open>The phase, the phase target \<open>targetWeeklyKilometers\<close> and the \<open>focus\<close> label.\<close>

definition phaseOf :: "int \<Rightarrow> int \<Rightarrow> Phase" where
  "phaseOf weeksUntilRace weekNo =
    (let remaining = weeksRemaining weeksUntilRace weekNo
     in if remaining \<le> 2 then Taper
        else if remaining \<le> \<lceil>real_of_int weeksUntilRace * 0.3\<rceil> then Peak
        else if remaining \<le> \<lceil>real_of_int weeksUntilRace * 0.6\<rceil> then Build
        else Base)"

definition targetWeeklyKilometers :: "int \<Rightarrow> int \<Rightarrow> real \<Rightarrow> real" where
  "targetWeeklyKilometers weeksUntilRace weekNo baseWeeklyKilometers =
    (let remaining = weeksRemaining weeksUntilRace weekNo
     in case phaseOf weeksUntilRace weekNo of
          Taper \<Rightarrow> baseWeeklyKilometers * (if remaining = 2 then 0.7 else 0.5)
        | Peak \<Rightarrow> baseWeeklyKilometers * 1.2
        | Build \<Rightarrow>
            (let buildProgress =
                   (real_of_int weeksUntilRace * 0.6 - real_of_int remaining)
                     / (real_of_int weeksUntilRace * 0.3)
             in baseWeeklyKilometers * (1.0 + 0.2 * buildProgress))
        | Base \<Rightarrow>
            (let baseProgress =
                   real_of_int (weekNo - 1) / real_of_int \<lceil>real_of_int weeksUntilRace * 0.4\<rceil>
             in baseWeeklyKilometers * (0.8 + 0.2 * baseProgress)))"

definition phaseFocus :: "Phase \<Rightarrow> string" where
  "phaseFocus phase =
    (case phase of
       Taper \<Rightarrow> ''Taper & Recovery''
     | Peak \<Rightarrow> ''Race-Specific Training''
     | Build \<Rightarrow> ''Building Endurance & Speed''
     | Base \<Rightarrow> ''Building Base Fitness'')"

fun maxWeeklyKm :: "RaceDistance \<Rightarrow> real" where
  "maxWeeklyKm Race5K = 45"
| "maxWeeklyKm Race10K = 65"
| "maxWeeklyKm RaceHalfMarathon = 85"
| "maxWeeklyKm RaceMarathon = 110"

text \<open>A number that may be \<open>undefined\<close> is truthy when it is defined and not zero.\<close>

definition truthy :: "real option \<Rightarrow> bool" where
  "truthy v = (case v of None \<Rightarrow> False | Some x \<Rightarrow> x \<noteq> 0)"

text \<open>
  The local variable \<open>weeklyKilometers\<close> of \<open>generateWeeklyPlan\<close>, after it has been
  rounded to one decimal: the volume handed to \<open>generateWorkout\<close>.
\<close>

definition weekVolume :: "int \<Rightarrow> int \<Rightarrow> real \<Rightarrow> RaceDistance \<Rightarrow> real option \<Rightarrow> real" where
  "weekVolume weekNo weeksUntilRace baseWeeklyKilometers raceDist previousWeekKilometers =
    (let unrounded =
           (if isRecoveryWeek weeksUntilRace weekNo \<and> truthy previousWeekKilometers then
              the previousWeekKilometers * 0.85
            else if phaseOf weeksUntilRace weekNo = Taper then
              targetWeeklyKilometers weeksUntilRace weekNo baseWeeklyKilometers
            else if truthy previousWeekKilometers then
              min (the previousWeekKilometers * 1.10)
                  (if maxWeeklyKm raceDist \<noteq> 0 then maxWeeklyKm raceDist else 80)
            else baseWeeklyKilometers * 0.80)
     in round_tenth unrounded)"

definition raceDayWorkout :: "RaceDistance \<Rightarrow> Workout" where
  "raceDayWorkout raceDist =
    \<lparr> day = ''Sunday'', w_type = RaceDay, w_distance = Some (RACE_DISTANCES raceDist),
      intensity = High \<rparr>"

text \<open>\<open>workout.distance || 0\<close>\<close>

definition distanceOrZero :: "Workout \<Rightarrow> real" where
  "distanceOrZero w = (case w_distance w of None \<Rightarrow> 0 | Some d \<Rightarrow> d)"

text \<open>The seven workouts of the week, after the race-day assignment \<open>workouts[6] = ...\<close>.\<close>

definition weekWorkouts ::
    "int \<Rightarrow> int \<Rightarrow> real \<Rightarrow> DetailedTrainingMetrics \<Rightarrow> RaceDistance \<Rightarrow> int \<Rightarrow> int list option
      \<Rightarrow> real option \<Rightarrow> Workout list" where
  "weekWorkouts weekNo weeksUntilRace baseWeeklyKilometers metrics raceDist rpw customTrainingDays
      previousWeekKilometers =
    (let phase = phaseOf weeksUntilRace weekNo;
         weeklyKm = weekVolume weekNo weeksUntilRace baseWeeklyKilometers raceDist
                      previousWeekKilometers;
         generated =
           map (\<lambda>d. generateWorkout phase d weeklyKm metrics raceDist rpw customTrainingDays)
             [0, 1, 2, 3, 4, 5, 6]
     in if weeksRemaining weeksUntilRace weekNo = 1 then generated[6 := raceDayWorkout raceDist]
        else generated)"

definition generateWeeklyPlan ::
    "int \<Rightarrow> int \<Rightarrow> real \<Rightarrow> DetailedTrainingMetrics \<Rightarrow> RaceDistance \<Rightarrow> int \<Rightarrow> int list option
      \<Rightarrow> real option \<Rightarrow> WeeklyPlan" where
  "generateWeeklyPlan weekNo weeksUntilRace baseWeeklyKilometers metrics raceDist rpw
      customTrainingDays previousWeekKilometers =
    (let ws = weekWorkouts weekNo weeksUntilRace baseWeeklyKilometers metrics raceDist rpw
                customTrainingDays previousWeekKilometers;
         actualTotalKilometers = foldl (\<lambda>sum workout. sum + distanceOrZero workout) 0 ws;
         roundedTotalKm = round_tenth actualTotalKilometers
     in \<lparr> weekNumber = weekNo,
          focus = (if isRecoveryWeek weeksUntilRace weekNo \<and> truthy previousWeekKilometers
                   then ''Recovery Week'' else phaseFocus (phaseOf weeksUntilRace weekNo)),
          totalKilometers = roundedTotalKm,
          workouts = ws \<rparr>)"

subsection \<open>generateTrainingPlan\<close>

text \<open>
  The recommendation texts, one constructor per message, carrying the numbers the
  message interpolates.
\<close>

datatype Recommendation =
    LessThan8Weeks
  | BuildLongRun real real
  | IncreaseVolume real real
  | RunMoreOften
  | FitnessExcellent
  | BuildBaseGradually
  | PaceImproving real
  | PaceSlowed
  | WorkOnConsistency int
  | ExcellentConsistency int
  | StayHydrated
  | PrioritizeSleep

record TrainingPlan =
  raceGoal :: RaceGoal
  weeksUntilRace :: int
  currentFitness :: string
  estimatedRaceTime :: string
  plan :: "WeeklyPlan list"
  recommendations :: "Recommendation list"

fun reasonableMax :: "RaceDistance \<Rightarrow> real" where
  "reasonableMax Race5K = 35"
| "reasonableMax Race10K = 50"
| "reasonableMax RaceHalfMarathon = 70"
| "reasonableMax RaceMarathon = 90"

definition baseWeeklyKm :: "DetailedTrainingMetrics \<Rightarrow> RaceDistance \<Rightarrow> real" where
  "baseWeeklyKm metrics raceDist =
    (let b0 = weeklyKilometers metrics;
         b1 = (if b0 < 10 then 12 else b0)
     in if b1 > reasonableMax raceDist then reasonableMax raceDist else b1)"

text \<open>
  The loop \<open>for (week = 1; week <= weeksToGenerate; week++)\<close>: \<open>planWeeks \<dots> n\<close> is the
  array \<open>plan\<close> after \<open>n\<close> iterations.
\<close>

fun planWeeks ::
    "int \<Rightarrow> real \<Rightarrow> DetailedTrainingMetrics \<Rightarrow> RaceDistance \<Rightarrow> int \<Rightarrow> int list option \<Rightarrow> nat
      \<Rightarrow> WeeklyPlan list" where
  "planWeeks weeksToGenerate base metrics raceDist rpw custom 0 = []"
| "planWeeks weeksToGenerate base metrics raceDist rpw custom (Suc n) =
    (let sofar = planWeeks weeksToGenerate base metrics raceDist rpw custom n;
         week = int (Suc n);
         previousWeekKm = (if week > 1 then Some (totalKilometers (sofar ! (n - 1))) else None)
     in sofar @ [generateWeeklyPlan week weeksToGenerate base metrics raceDist rpw custom
                   previousWeekKm])"

definition planRecommendations ::
    "int \<Rightarrow> DetailedTrainingMetrics \<Rightarrow> real \<Rightarrow> real \<Rightarrow> string \<Rightarrow> Recommendation list" where
  "planRecommendations weeks metrics raceDistanceKm base fitnessLevel =
    (if weeks < 8 then [LessThan8Weeks] else [])
    @ (if longestRun metrics < raceDistanceKm * 0.6
       then [BuildLongRun (longestRun metrics) (raceDistanceKm * 0.75)] else [])
    @ (if weeklyKilometers metrics < base * 0.8
       then [IncreaseVolume (weeklyKilometers metrics) base] else [])
    @ (if recentRunCount metrics < 12 then [RunMoreOften] else [])
    @ (if fitnessLevel = ''Advanced'' then [FitnessExcellent]
       else if fitnessLevel = ''Beginner'' then [BuildBaseGradually] else [])
    @ (if recentPaceImprovement metrics > 5 then [PaceImproving (recentPaceImprovement metrics)]
       else if recentPaceImprovement metrics < - 5 then [PaceSlowed] else [])
    @ (if consistencyScore metrics < 50
       then [WorkOnConsistency (Math_round (consistencyScore metrics))]
       else if consistencyScore metrics \<ge> 80
       then [ExcellentConsistency (Math_round (consistencyScore metrics))] else [])
    @ [StayHydrated, PrioritizeSleep]"

text \<open>\<open>a || b || "Not available"\<close> on optional strings: the first that is present and not empty.\<close>

definition firstTruthy :: "string option \<Rightarrow> string option \<Rightarrow> string" where
  "firstTruthy a b =
    (case a of
       Some x \<Rightarrow> if x \<noteq> [] then x
                 else (case b of Some y \<Rightarrow> if y \<noteq> [] then y else ''Not available''
                               | None \<Rightarrow> ''Not available'')
     | None \<Rightarrow> (case b of Some y \<Rightarrow> if y \<noteq> [] then y else ''Not available''
                         | None \<Rightarrow> ''Not available''))"

text \<open>
  The argument \<open>formattedTime\<close> is the field \<open>predictions.formattedTime\<close> of the third
  parameter; the \<open>generatedDate\<close> string of the result is left out.
\<close>

definition generateTrainingPlan ::
    "int \<Rightarrow> RaceGoal \<Rightarrow> DetailedTrainingMetrics \<Rightarrow> string option \<Rightarrow> TrainingPlan" where
  "generateTrainingPlan now goal trainingMetrics formattedTime =
    (let weeks = getWeeksUntilRace now (goal_date goal) (goal_startDate goal);
         fitnessLevel = assessFitnessLevel trainingMetrics (goal_distance goal);
         raceDistanceKm = RACE_DISTANCES (goal_distance goal);
         base = baseWeeklyKm trainingMetrics (goal_distance goal);
         weeksToGenerate = weeks
     in \<lparr> raceGoal = goal,
          weeksUntilRace = weeks,
          currentFitness = fitnessLevel,
          estimatedRaceTime = firstTruthy formattedTime (goal_targetTime goal),
          plan = planWeeks weeksToGenerate base trainingMetrics (goal_distance goal)
                   (runsPerWeek goal) (trainingDays goal) (nat weeksToGenerate),
          recommendations = planRecommendations weeks trainingMetrics raceDistanceKm base
                              fitnessLevel \<rparr>)"

section \<open>Verified properties\<close>

subsection \<open>Fewer than five qualifying runs\<close>

text \<open>
  Claim C7. When fewer than five activities pass the filter of \<open>calculateRacePredictions\<close>
  (type \<open>Run\<close>, started no earlier than 24 weeks before now), the function returns
  normally and all four predictions are the same record: not available, \<open>time\<close> and
  \<open>pace\<close> null, and the reason ``Need at least 5 runs in the last 24 weeks. Currently
  have n.'' with the number of qualifying runs. The empty history is the instance below.
\<close>

theorem insufficient_runs_all_unavailable:
  assumes "length (recentActivities now acts) < 5"
  shows "\<exists>r. calculateRacePredictions now acts =
               Inr \<lparr> p5K = r, p10K = r, halfMarathon = r, marathon = r \<rparr>
           \<and> r = \<lparr> available = False, time = None, pace = None,
                   reason = ''Need at least 5 runs in the last 24 weeks. Currently have ''
                              @ show_nat (length (recentActivities now acts)) @ ''.'' \<rparr>"
  using assms
  by (simp add: calculateRacePredictions_def Let_def minRuns5K_def unavailable_def
      shortfall_reason_def digit_char_def)

theorem insufficient_runs_empty_history:
  "length (recentActivities 1700000000000 []) < 5
   \<and> calculateRacePredictions 1700000000000 [] =
       Inr \<lparr> p5K = \<lparr> available = False, time = None, pace = None,
                     reason = ''Need at least 5 runs in the last 24 weeks. Currently have 0.'' \<rparr>,
             p10K = \<lparr> available = False, time = None, pace = None,
                     reason = ''Need at least 5 runs in the last 24 weeks. Currently have 0.'' \<rparr>,
             halfMarathon = \<lparr> available = False, time = None, pace = None,
                     reason = ''Need at least 5 runs in the last 24 weeks. Currently have 0.'' \<rparr>,
             marathon = \<lparr> available = False, time = None, pace = None,
                     reason = ''Need at least 5 runs in the last 24 weeks. Currently have 0.'' \<rparr> \<rparr>"
  using insufficient_runs_all_unavailable [of 1700000000000 "[]"]
  by (auto simp add: recentActivities_def digit_char_def)

subsection \<open>Availability without a pace\<close>

lemma short_runs_recent:
  "recentActivities 1700000000000
     (replicate 5 \<lparr> distance = 500, moving_time = 200, start_date = 1699990000000,
                    activity_type = ''Run'' \<rparr>)
   = replicate 5 \<lparr> distance = 500, moving_time = 200, start_date = 1699990000000,
                    activity_type = ''Run'' \<rparr>"
  by (simp add: recentActivities_def DAY_MS_def)

lemma short_runs_no_pace:
  assumes "d \<in> {5, 10, 21.1, 42.2}"
  shows "calculateDistancePrediction 1700000000000
     (replicate 5 \<lparr> distance = 500, moving_time = 200, start_date = 1699990000000,
                    activity_type = ''Run'' \<rparr>) d
   = Inr \<lparr> available = False, time = None, pace = None,
           reason = ''Insufficient data for prediction'' \<rparr>"
  using assms
  by (auto simp add: calculateDistancePrediction_def similarRuns_def getSimilarDistanceRange_def
      estimatePaceFromTraining_def validRuns_def Let_def)

text \<open>
  Claim C1. The claim asks that a prediction marked available carries a time, a pace and
  an empty reason. Five recent runs of 500 m meet the overall minimum and the 5K threshold,
  but no pace can be derived from them: no run is near a race distance and none is longer
  than one kilometre. \<open>calculateDistancePrediction\<close> reports that as unavailable, and
  \<open>calculateRacePredictions\<close> then sets \<open>available\<close> on the 5K record all the same, so the
  record returned is available with null time, null pace and a non-empty reason.
\<close>

theorem available_without_pace:
  "calculateRacePredictions 1700000000000
     (replicate 5 \<lparr> distance = 500, moving_time = 200, start_date = 1699990000000,
                    activity_type = ''Run'' \<rparr>)
   = Inr \<lparr> p5K = \<lparr> available = True, time = None, pace = None,
                   reason = ''Insufficient data for prediction'' \<rparr>,
           p10K = \<lparr> available = False, time = None, pace = None,
                    reason = ''Need 10 runs for 10K prediction'' \<rparr>,
           halfMarathon = \<lparr> available = False, time = None, pace = None,
                    reason = ''Need 20 runs for half marathon prediction'' \<rparr>,
           marathon = \<lparr> available = False, time = None, pace = None,
                    reason = ''Need 20 runs for marathon prediction'' \<rparr> \<rparr>"
  unfolding calculateRacePredictions_def short_runs_recent Let_def
  by (simp add: short_runs_no_pace minRuns5K_def minRuns10K_def minRunsLong_def digit_char_def)

subsection \<open>The outlier filter of the extrapolation path\<close>

lemma validRuns_bounds:
  assumes "run \<in> set (validRuns now acts)"
  shows "1 < r_distance run \<and> r_distance run < 50 \<and> 0 < r_time run
         \<and> 2.5 < r_pace run \<and> r_pace run < 12"
  using assms by (auto simp add: validRuns_def)

lemma weightedRuns_empty_iff: "weightedRuns runs = [] \<longleftrightarrow> runs = []"
  by (simp add: weightedRuns_def)

lemma quartile_indices:
  fixes n :: nat
  assumes "0 < n"
  shows "nat \<lfloor>real n * 0.25\<rfloor> \<le> nat \<lfloor>real n * 0.75\<rfloor>" and "nat \<lfloor>real n * 0.75\<rfloor> < n"
proof -
  have "real n * 0.25 \<le> real n * 0.75" by simp
  then have "\<lfloor>real n * 0.25\<rfloor> \<le> \<lfloor>real n * 0.75\<rfloor>" by (rule floor_mono)
  then show "nat \<lfloor>real n * 0.25\<rfloor> \<le> nat \<lfloor>real n * 0.75\<rfloor>" by simp
  have "real n * 0.75 < real n" using assms by simp
  then have "\<lfloor>real n * 0.75\<rfloor> < int n" by (simp add: floor_less_iff)
  then show "nat \<lfloor>real n * 0.75\<rfloor> < n" using assms by linarith
qed

lemma quartile1_in_band:
  assumes "wruns \<noteq> []"
  shows "lowerBound wruns \<le> quartile1 wruns" and "quartile1 wruns \<le> upperBound wruns"
    and "\<exists>run \<in> set wruns. r_pace run = quartile1 wruns"
proof -
  let ?ps = "sorted_paces wruns"
  let ?n = "length ?ps"
  have n: "0 < ?n" using assms by (simp add: sorted_paces_def)
  have srt: "sorted ?ps" by (simp add: sorted_paces_def)
  have le: "quartile1 wruns \<le> quartile3 wruns"
    unfolding quartile1_def quartile3_def
    using sorted_nth_mono [OF srt quartile_indices(1) [OF n] quartile_indices(2) [OF n]] .
  show "lowerBound wruns \<le> quartile1 wruns" using le by (simp add: lowerBound_def)
  show "quartile1 wruns \<le> upperBound wruns" using le by (simp add: upperBound_def field_simps)
  have "nat \<lfloor>real ?n * 0.25\<rfloor> < ?n"
    using quartile_indices [OF n] by linarith
  then have "quartile1 wruns \<in> set ?ps" unfolding quartile1_def by (rule nth_mem)
  then have "quartile1 wruns \<in> r_pace ` set wruns" by (simp add: sorted_paces_def)
  then show "\<exists>run \<in> set wruns. r_pace run = quartile1 wruns" by auto
qed

lemma iqrFiltered_keeps_quartile1:
  assumes "wruns \<noteq> []"
  shows "\<exists>run \<in> set (iqrFiltered wruns). r_pace run = quartile1 wruns"
proof -
  obtain run where "run \<in> set wruns" and "r_pace run = quartile1 wruns"
    using quartile1_in_band(3) [OF assms] by blast
  then have "run \<in> set (iqrFiltered wruns)"
    using quartile1_in_band(1,2) [OF assms] by (simp add: iqrFiltered_def)
  then show ?thesis using \<open>r_pace run = quartile1 wruns\<close> by blast
qed

lemma reduce_fastest_nonempty: "runs \<noteq> [] \<Longrightarrow> \<exists>best. reduce_fastest runs = Inr best"
  by (cases runs) (simp_all add: reduce_fastest_def)

text \<open>
  Claim C9. The pool \<open>validRuns\<close> holds only runs longer than 1 km and shorter than 50 km,
  with positive moving time and a pace strictly between 2.5 and 12 min/km. Whenever the
  pool is not empty, the band \<open>[q1 - 1.5 * iqr, q3 + 1.5 * iqr]\<close> contains \<open>q1\<close>, some run
  of the pool has pace \<open>q1\<close> and survives the filter, the filtered list is not empty, so
  the fallback that pushes the five most recent runs leaves it unchanged, and
  \<open>estimatePaceFromTraining\<close> returns a number. It returns null exactly when the pool is
  empty, and it never throws.
\<close>

theorem iqr_filter_never_empties_pool:
  "(validRuns now acts = [] \<longrightarrow> estimatePaceFromTraining now acts target = Inr None)
   \<and> (validRuns now acts \<noteq> [] \<longrightarrow>
        (\<forall>run \<in> set (validRuns now acts).
            1 < r_distance run \<and> r_distance run < 50 \<and> 0 < r_time run
            \<and> 2.5 < r_pace run \<and> r_pace run < 12)
        \<and> (\<exists>run \<in> set (iqrFiltered (weightedRuns (validRuns now acts))).
              r_pace run = quartile1 (weightedRuns (validRuns now acts)))
        \<and> lowerBound (weightedRuns (validRuns now acts))
             \<le> quartile1 (weightedRuns (validRuns now acts))
        \<and> quartile1 (weightedRuns (validRuns now acts))
             \<le> upperBound (weightedRuns (validRuns now acts))
        \<and> iqrFiltered (weightedRuns (validRuns now acts)) \<noteq> []
        \<and> filteredRuns (weightedRuns (validRuns now acts))
             = iqrFiltered (weightedRuns (validRuns now acts))
        \<and> (\<exists>p. estimatePaceFromTraining now acts target = Inr (Some p)))"
proof (intro conjI impI)
  assume "validRuns now acts = []"
  then show "estimatePaceFromTraining now acts target = Inr None"
    by (simp add: estimatePaceFromTraining_def)
next
  assume ne: "validRuns now acts \<noteq> []"
  let ?w = "weightedRuns (validRuns now acts)"
  have w: "?w \<noteq> []" using ne by (simp add: weightedRuns_empty_iff)
  show "\<forall>run \<in> set (validRuns now acts).
            1 < r_distance run \<and> r_distance run < 50 \<and> 0 < r_time run
            \<and> 2.5 < r_pace run \<and> r_pace run < 12"
    using validRuns_bounds by blast
  show kept: "\<exists>run \<in> set (iqrFiltered ?w). r_pace run = quartile1 ?w"
    using iqrFiltered_keeps_quartile1 [OF w] .
  show "lowerBound ?w \<le> quartile1 ?w" using quartile1_in_band(1) [OF w] .
  show "quartile1 ?w \<le> upperBound ?w" using quartile1_in_band(2) [OF w] .
  show f: "iqrFiltered ?w \<noteq> []" using kept by auto
  show same: "filteredRuns ?w = iqrFiltered ?w" using f by (simp add: filteredRuns_def)
  obtain best where "reduce_fastest (filteredRuns ?w) = Inr best"
    using reduce_fastest_nonempty [of "filteredRuns ?w"] f same by auto
  then show "\<exists>p. estimatePaceFromTraining now acts target = Inr (Some p)"
    using ne by (simp add: estimatePaceFromTraining_def Let_def)
qed

lemma one_valid_run:
  "validRuns 1700000000000
     [\<lparr> distance = 5000, moving_time = 1500, start_date = 1699990000000, activity_type = ''Run'' \<rparr>]
   = [\<lparr> r_distance = 5, r_pace = 5, r_time = 1500, r_date = 1699990000000, r_daysAgo = 0 \<rparr>]"
  by (simp add: validRuns_def DAY_MS_def)

theorem iqr_filter_single_run:
  "validRuns 1700000000000
     [\<lparr> distance = 5000, moving_time = 1500, start_date = 1699990000000, activity_type = ''Run'' \<rparr>]
     \<noteq> []
   \<and> (\<exists>p. estimatePaceFromTraining 1700000000000
        [\<lparr> distance = 5000, moving_time = 1500, start_date = 1699990000000, activity_type = ''Run'' \<rparr>]
        10 = Inr (Some p))
   \<and> estimatePaceFromTraining 1700000000000 [] 10 = Inr None"
  using iqr_filter_never_empties_pool [of 1700000000000
     "[\<lparr> distance = 5000, moving_time = 1500, start_date = 1699990000000, activity_type = ''Run'' \<rparr>]" 10]
    iqr_filter_never_empties_pool [of 1700000000000 "[]" 10]
  by (simp add: one_valid_run validRuns_def)

subsection \<open>Pace zones\<close>

lemma zonesFor_eq:
  "zonesFor p =
     \<lparr> easy = \<lparr> zmin = p * 1.15, zmax = p * 1.3 \<rparr>,
       tempo = \<lparr> zmin = p * 0.9, zmax = p * 0.95 \<rparr>,
       threshold = \<lparr> zmin = p * 0.85, zmax = p * 0.9 \<rparr>,
       interval = \<lparr> zmin = p * 0.75, zmax = p * 0.85 \<rparr>,
       long = \<lparr> zmin = p * 1.1, zmax = p * 1.2 \<rparr> \<rparr>"
  by (simp add: zonesFor_def)

lemma paceZones_calculateDetailedMetrics:
  "paceZones (calculateDetailedMetrics now acts wk a0 lr rc) = zonesFor (recentAvgPace now acts a0)"
  by (simp add: calculateDetailedMetrics_def Let_def)

text \<open>
  Claim C4, as stated, places the long zone slower than the lower bound of the easy
  zone. At a reference pace of 5 min/km the long zone starts at 5.5 min/km, which is
  faster than the 5.75 min/km where the easy zone starts.
\<close>

theorem long_zone_starts_below_easy:
  "recentAvgPace 1700000000000 [] 5 = 5
   \<and> zmin (long (paceZones (calculateDetailedMetrics 1700000000000 [] 30 5 10 12))) = 5.5
   \<and> zmin (easy (paceZones (calculateDetailedMetrics 1700000000000 [] 30 5 10 12))) = 5.75
   \<and> zmin (long (paceZones (calculateDetailedMetrics 1700000000000 [] 30 5 10 12)))
       < zmin (easy (paceZones (calculateDetailedMetrics 1700000000000 [] 30 5 10 12)))"
  by (simp add: paceZones_calculateDetailedMetrics zonesFor_eq recentAvgPace_def)

text \<open>
  Claim C4, amended. For every positive reference pace \<open>p\<close> (the trailing-4-week average,
  or the caller's average when there is no recent run) the zones are the fixed multiples
  easy [1.15, 1.30], tempo [0.90, 0.95], threshold [0.85, 0.90], interval [0.75, 0.85]
  and long [1.10, 1.20] of \<open>p\<close>; \<open>easy.max > easy.min > p > interval.min\<close>; interval,
  threshold, tempo and easy are ordered from fastest to slowest; and the long zone lies
  slower than \<open>p\<close> and overlaps the easy zone: it starts faster than \<open>easy.min\<close> and ends
  between \<open>easy.min\<close> and \<open>easy.max\<close>.
\<close>

theorem pace_zones_multiples_and_order:
  assumes "recentAvgPace now acts a0 = p" and "0 < p"
  shows "paceZones (calculateDetailedMetrics now acts wk a0 lr rc) =
           \<lparr> easy = \<lparr> zmin = p * 1.15, zmax = p * 1.3 \<rparr>,
             tempo = \<lparr> zmin = p * 0.9, zmax = p * 0.95 \<rparr>,
             threshold = \<lparr> zmin = p * 0.85, zmax = p * 0.9 \<rparr>,
             interval = \<lparr> zmin = p * 0.75, zmax = p * 0.85 \<rparr>,
             long = \<lparr> zmin = p * 1.1, zmax = p * 1.2 \<rparr> \<rparr>
         \<and> (let z = paceZones (calculateDetailedMetrics now acts wk a0 lr rc)
            in zmax (easy z) > zmin (easy z) \<and> zmin (easy z) > p \<and> p > zmin (interval z)
               \<and> zmin (interval z) < zmax (interval z)
               \<and> zmax (interval z) \<le> zmin (threshold z)
               \<and> zmin (threshold z) < zmax (threshold z)
               \<and> zmax (threshold z) \<le> zmin (tempo z)
               \<and> zmin (tempo z) < zmax (tempo z)
               \<and> zmax (tempo z) < p
               \<and> p < zmin (long z)
               \<and> zmin (long z) < zmin (easy z)
               \<and> zmin (easy z) < zmax (long z)
               \<and> zmax (long z) < zmax (easy z))"
  using assms by (simp add: paceZones_calculateDetailedMetrics zonesFor_eq Let_def)

theorem pace_zones_at_five:
  "recentAvgPace 1700000000000 [] 5 = 5 \<and> (0::real) < 5
   \<and> paceZones (calculateDetailedMetrics 1700000000000 [] 30 5 10 12) =
           \<lparr> easy = \<lparr> zmin = 5.75, zmax = 6.5 \<rparr>,
             tempo = \<lparr> zmin = 4.5, zmax = 4.75 \<rparr>,
             threshold = \<lparr> zmin = 4.25, zmax = 4.5 \<rparr>,
             interval = \<lparr> zmin = 3.75, zmax = 4.25 \<rparr>,
             long = \<lparr> zmin = 5.5, zmax = 6 \<rparr> \<rparr>"
  using pace_zones_multiples_and_order [of 1700000000000 "[]" 5 5 30 10 12]
  by (simp add: recentAvgPace_def)

subsection \<open>A race date that is not after the start\<close>

lemma getWeeksUntilRace_nonpositive_iff:
  "getWeeksUntilRace now raceDate startDate0 \<le> 0
   \<longleftrightarrow> raceDate \<le> (case startDate0 of Some s \<Rightarrow> s | None \<Rightarrow> now)"
proof -
  let ?start = "case startDate0 of Some s \<Rightarrow> s | None \<Rightarrow> now"
  let ?days = "\<lceil>real_of_int (raceDate - ?start) / real_of_int DAY_MS\<rceil>"
  have pos: "(0::real) < real_of_int DAY_MS" by (simp add: DAY_MS_def)
  have "getWeeksUntilRace now raceDate startDate0 \<le> 0 \<longleftrightarrow> real_of_int ?days / 7 \<le> 0"
    by (simp add: getWeeksUntilRace_def Let_def ceiling_le_iff)
  also have "\<dots> \<longleftrightarrow> ?days \<le> 0" by simp
  also have "\<dots> \<longleftrightarrow> real_of_int (raceDate - ?start) / real_of_int DAY_MS \<le> 0"
    by (simp add: ceiling_le_iff)
  also have "\<dots> \<longleftrightarrow> real_of_int (raceDate - ?start) \<le> 0"
    using pos by (simp add: divide_le_0_iff)
  also have "\<dots> \<longleftrightarrow> raceDate \<le> ?start" by simp
  finally show ?thesis .
qed

lemma assessFitnessLevel_cases:
  "assessFitnessLevel m d \<in> {''Advanced'', ''Intermediate'', ''Beginner''}"
  by (simp add: assessFitnessLevel_def Let_def)

lemma firstTruthy_nonempty: "firstTruthy a b \<noteq> []"
  by (simp add: firstTruthy_def split: option.splits)

lemma planRecommendations_tail:
  "\<exists>rs. planRecommendations w m km b f = rs @ [StayHydrated, PrioritizeSleep]"
  unfolding planRecommendations_def
  by (metis append.assoc)

text \<open>
  Claim C10. When the race date is on or before the start of the plan (the goal's start
  date, or now when there is none), \<open>getWeeksUntilRace\<close> is zero or negative and
  \<open>generateTrainingPlan\<close> returns a plan with no week at all, hence no Race Day workout,
  while it still reports the number of weeks, one of the three fitness levels, a
  non-empty estimated race time and a recommendation list that ends with the two
  standing reminders.
\<close>

theorem no_weeks_when_race_not_after_start:
  assumes "goal_date g \<le> (case goal_startDate g of Some s \<Rightarrow> s | None \<Rightarrow> now)"
  shows "getWeeksUntilRace now (goal_date g) (goal_startDate g) \<le> 0
       \<and> plan (generateTrainingPlan now g m ft) = []
       \<and> weeksUntilRace (generateTrainingPlan now g m ft)
           = getWeeksUntilRace now (goal_date g) (goal_startDate g)
       \<and> currentFitness (generateTrainingPlan now g m ft)
           \<in> {''Advanced'', ''Intermediate'', ''Beginner''}
       \<and> estimatedRaceTime (generateTrainingPlan now g m ft) \<noteq> []
       \<and> (\<exists>rs. recommendations (generateTrainingPlan now g m ft)
                 = rs @ [StayHydrated, PrioritizeSleep])"
proof -
  have w: "getWeeksUntilRace now (goal_date g) (goal_startDate g) \<le> 0"
    using assms by (simp add: getWeeksUntilRace_nonpositive_iff)
  then have "nat (getWeeksUntilRace now (goal_date g) (goal_startDate g)) = 0" by simp
  then have "plan (generateTrainingPlan now g m ft) = []"
    by (simp add: generateTrainingPlan_def Let_def)
  moreover have "currentFitness (generateTrainingPlan now g m ft)
           \<in> {''Advanced'', ''Intermediate'', ''Beginner''}"
    using assessFitnessLevel_cases [of m "goal_distance g"]
    by (simp add: generateTrainingPlan_def Let_def)
  moreover have "\<exists>rs. recommendations (generateTrainingPlan now g m ft)
                 = rs @ [StayHydrated, PrioritizeSleep]"
    using planRecommendations_tail by (simp add: generateTrainingPlan_def Let_def)
  ultimately show ?thesis
    using w firstTruthy_nonempty by (simp add: generateTrainingPlan_def Let_def)
qed

theorem no_weeks_for_a_past_race:
  "goal_date \<lparr> goal_date = 1699990000000, goal_startDate = None, goal_distance = Race10K,
               goal_targetTime = Some ''0:50:00'', runsPerWeek = 3, trainingDays = None \<rparr>
     \<le> (case goal_startDate
               \<lparr> goal_date = 1699990000000, goal_startDate = None, goal_distance = Race10K,
                 goal_targetTime = Some ''0:50:00'', runsPerWeek = 3, trainingDays = None \<rparr>
          of Some s \<Rightarrow> s | None \<Rightarrow> 1700000000000)
   \<and> plan (generateTrainingPlan 1700000000000
        \<lparr> goal_date = 1699990000000, goal_startDate = None, goal_distance = Race10K,
          goal_targetTime = Some ''0:50:00'', runsPerWeek = 3, trainingDays = None \<rparr>
        (calculateDetailedMetrics 1700000000000 [] 30 5 10 12) None) = []"
proof -
  let ?g = "\<lparr> goal_date = 1699990000000, goal_startDate = None, goal_distance = Race10K,
          goal_targetTime = Some ''0:50:00'', runsPerWeek = 3, trainingDays = None \<rparr>"
  have h: "goal_date ?g \<le> (case goal_startDate ?g of Some s \<Rightarrow> s | None \<Rightarrow> 1700000000000)"
    by simp
  show ?thesis
    using h no_weeks_when_race_not_after_start [OF h] by blast
qed

subsection \<open>Availability below a per-distance threshold\<close>

lemma estimatePaceFromTraining_returns:
  "\<exists>r. estimatePaceFromTraining now acts target = Inr r"
proof (cases "validRuns now acts = []")
  case True
  then show ?thesis by (simp add: estimatePaceFromTraining_def)
next
  case False
  let ?w = "weightedRuns (validRuns now acts)"
  have "?w \<noteq> []" using False by (simp add: weightedRuns_empty_iff)
  then have "iqrFiltered ?w \<noteq> []" using iqrFiltered_keeps_quartile1 [of ?w] by auto
  then have "filteredRuns ?w \<noteq> []" by (simp add: filteredRuns_def)
  then obtain best where "reduce_fastest (filteredRuns ?w) = Inr best"
    using reduce_fastest_nonempty by blast
  then show ?thesis using False by (simp add: estimatePaceFromTraining_def Let_def)
qed

lemma calculateDistancePrediction_returns:
  "\<exists>p. calculateDistancePrediction now acts d = Inr p"
proof (cases "similarRuns acts d")
  case Nil
  obtain r where "estimatePaceFromTraining now acts d = Inr r"
    using estimatePaceFromTraining_returns by blast
  with Nil show ?thesis by (simp add: calculateDistancePrediction_def Let_def)
next
  case (Cons a rest)
  then show ?thesis by (simp add: calculateDistancePrediction_def Let_def)
qed

lemma five_km_runs_recent:
  "recentActivities 1700000000000
     (replicate 5 \<lparr> distance = 5000, moving_time = 1500, start_date = 1699990000000,
                    activity_type = ''Run'' \<rparr>)
   = replicate 5 \<lparr> distance = 5000, moving_time = 1500, start_date = 1699990000000,
                    activity_type = ''Run'' \<rparr>"
  by (simp add: recentActivities_def DAY_MS_def)

lemma five_km_runs_estimate:
  "estimatePaceFromTraining 1700000000000
     (replicate 5 \<lparr> distance = 5000, moving_time = 1500, start_date = 1699990000000,
                    activity_type = ''Run'' \<rparr>) 10
   = Inr (Some (5 * 2 powr 0.06))"
  by (simp add: estimatePaceFromTraining_def validRuns_def weightedRuns_def filteredRuns_def
      iqrFiltered_def lowerBound_def upperBound_def quartile1_def quartile3_def sorted_paces_def
      reduce_fastest_def getDistanceAdjustmentFactor_def DAY_MS_def Let_def
      TrainingRun.extend_def WeightedRun.fields_def numeral_eq_Suc)

lemma five_km_runs_10K:
  "\<exists>t p. calculateDistancePrediction 1700000000000
     (replicate 5 \<lparr> distance = 5000, moving_time = 1500, start_date = 1699990000000,
                    activity_type = ''Run'' \<rparr>) 10
   = Inr \<lparr> available = True, time = Some t, pace = Some p, reason = '''' \<rparr>"
  by (simp add: calculateDistancePrediction_def similarRuns_def getSimilarDistanceRange_def
      five_km_runs_estimate Let_def)

text \<open>
  Five recent runs of 5 km are fewer than the ten the 10K prediction asks for. The pace
  for 10 km is extrapolated, \<open>calculateDistancePrediction\<close> marks the prediction
  available, and \<open>calculateRacePredictions\<close> only replaces its reason: the 10K record
  returned is available, with a time, a pace and the reason ``Need 10 runs for 10K
  prediction''.
\<close>

lemma available_with_reason_below_threshold:
  "\<exists>ps t p. calculateRacePredictions 1700000000000
     (replicate 5 \<lparr> distance = 5000, moving_time = 1500, start_date = 1699990000000,
                    activity_type = ''Run'' \<rparr>) = Inr ps
     \<and> p10K ps = \<lparr> available = True, time = Some t, pace = Some p,
                    reason = ''Need 10 runs for 10K prediction'' \<rparr>"
proof -
  let ?acts = "replicate 5 \<lparr> distance = 5000, moving_time = 1500, start_date = 1699990000000,
                    activity_type = ''Run'' \<rparr>"
  obtain d5 where d5: "calculateDistancePrediction 1700000000000 ?acts 5 = Inr d5"
    using calculateDistancePrediction_returns by blast
  obtain t p where d10: "calculateDistancePrediction 1700000000000 ?acts 10
      = Inr \<lparr> available = True, time = Some t, pace = Some p, reason = '''' \<rparr>"
    using five_km_runs_10K by blast
  obtain dh where dh: "calculateDistancePrediction 1700000000000 ?acts 21.1 = Inr dh"
    using calculateDistancePrediction_returns by blast
  obtain dm where dm: "calculateDistancePrediction 1700000000000 ?acts 42.2 = Inr dm"
    using calculateDistancePrediction_returns by blast
  show ?thesis
    unfolding calculateRacePredictions_def five_km_runs_recent Let_def
    using d5 d10 dh dm
    by (simp add: minRuns5K_def minRuns10K_def minRunsLong_def digit_char_def)
qed

subsection \<open>Rounding to one decimal\<close>

lemma round_tenth_upper: "round_tenth x \<le> x + 0.05"
proof -
  have "real_of_int \<lfloor>x * 10 + 1 / 2\<rfloor> \<le> x * 10 + 1 / 2" by (rule of_int_floor_le)
  then show ?thesis by (simp add: round_tenth_def Math_round_def field_simps)
qed

lemma round_tenth_nonneg: "0 \<le> x \<Longrightarrow> 0 \<le> round_tenth x"
proof -
  assume "0 \<le> x"
  then have "0 \<le> \<lfloor>x * 10 + 1 / 2\<rfloor>" by (simp add: le_floor_iff)
  then show ?thesis by (simp add: round_tenth_def Math_round_def)
qed

lemma round_tenth_mono: "x \<le> y \<Longrightarrow> round_tenth x \<le> round_tenth y"
  by (simp add: round_tenth_def Math_round_def floor_mono divide_right_mono)

lemma round_tenth_of_int: "round_tenth (real_of_int k) = real_of_int k"
proof -
  have "\<lfloor>real_of_int k * 10 + 1 / 2\<rfloor> = k * 10"
    by (simp add: floor_eq_iff)
  then show ?thesis by (simp add: round_tenth_def Math_round_def)
qed

lemma tenths_round_tenth: "tenths (round_tenth x)"
  unfolding tenths_def round_tenth_def by blast

lemma tenths_zero: "tenths 0"
  unfolding tenths_def by (rule exI [of _ 0]) simp

lemma tenths_add: "tenths x \<Longrightarrow> tenths y \<Longrightarrow> tenths (x + y)"
proof -
  assume "tenths x" and "tenths y"
  then obtain i j :: int where "x = real_of_int i / 10" and "y = real_of_int j / 10"
    unfolding tenths_def by blast
  then have "x + y = real_of_int (i + j) / 10" by (simp add: add_divide_distrib)
  then show ?thesis unfolding tenths_def by blast
qed

lemma round_tenth_tenths: "tenths x \<Longrightarrow> round_tenth x = x"
proof -
  assume "tenths x"
  then obtain k :: int where x: "x = real_of_int k / 10" unfolding tenths_def by blast
  have "\<lfloor>real_of_int k + 1 / 2\<rfloor> = k" by (simp add: floor_eq_iff)
  then show ?thesis by (simp add: x round_tenth_def Math_round_def)
qed

lemma tenths_RACE_DISTANCES: "tenths (RACE_DISTANCES d)"
proof (cases d)
  case Race5K
  then show ?thesis unfolding tenths_def by (intro exI [of _ 50]) simp
next
  case Race10K
  then show ?thesis unfolding tenths_def by (intro exI [of _ 100]) simp
next
  case RaceHalfMarathon
  then show ?thesis unfolding tenths_def by (intro exI [of _ 211]) simp
next
  case RaceMarathon
  then show ?thesis unfolding tenths_def by (intro exI [of _ 422]) simp
qed

lemma foldl_add_sum_list:
  "foldl (\<lambda>s w. s + f w) (a::real) ws = a + sum_list (map f ws)"
  by (induction ws arbitrary: a) simp_all

lemma tenths_sum_list: "(\<And>x. x \<in> set xs \<Longrightarrow> tenths (f x)) \<Longrightarrow> tenths (sum_list (map f xs))"
  by (induction xs) (simp_all add: tenths_zero tenths_add)

subsection \<open>The workouts of one day and of one week\<close>

lemma runDays_nonempty: "runDays rpw custom \<noteq> []"
  by (cases custom) (auto simp add: runDays_def hasCustomDays_def)

lemma otherRunDistance_tenths: "tenths (otherRunDistance wk rd)"
  by (simp add: otherRunDistance_def Let_def tenths_round_tenth tenths_zero)

text \<open>The distance of a generated workout depends only on the day's place in the run-day list.\<close>

lemma generateWorkout_distance:
  "distanceOrZero (generateWorkout ph d wk m rdist rpw custom) =
     (if d \<notin> set (runDays rpw custom) then 0
      else if d = last (runDays rpw custom) then round_tenth (wk * 0.35)
      else otherRunDistance wk (runDays rpw custom))"
  by (cases ph) (simp_all add: generateWorkout_def distanceOrZero_def Let_def)

lemma generateWorkout_type:
  "w_type (generateWorkout ph d wk m rdist rpw custom) \<noteq> RaceDay"
  by (cases ph) (simp_all add: generateWorkout_def Let_def)

lemma generateWorkout_long_run_iff:
  "w_type (generateWorkout ph d wk m rdist rpw custom) = LongRun
   \<longleftrightarrow> d \<in> set (runDays rpw custom) \<and> d = last (runDays rpw custom)"
  by (cases ph) (simp_all add: generateWorkout_def Let_def)

lemma generateWorkout_tenths:
  "tenths (distanceOrZero (generateWorkout ph d wk m rdist rpw custom))"
  by (simp add: generateWorkout_distance tenths_zero tenths_round_tenth otherRunDistance_tenths)

lemma weekWorkouts_eq:
  "weekWorkouts w W b m rdist rpw custom prev =
    (let ph = phaseOf W w; wk = weekVolume w W b rdist prev
     in [generateWorkout ph 0 wk m rdist rpw custom,
         generateWorkout ph 1 wk m rdist rpw custom,
         generateWorkout ph 2 wk m rdist rpw custom,
         generateWorkout ph 3 wk m rdist rpw custom,
         generateWorkout ph 4 wk m rdist rpw custom,
         generateWorkout ph 5 wk m rdist rpw custom,
         if weeksRemaining W w = 1 then raceDayWorkout rdist
         else generateWorkout ph 6 wk m rdist rpw custom])"
  by (simp add: weekWorkouts_def Let_def)

lemma weekWorkouts_length: "length (weekWorkouts w W b m rdist rpw custom prev) = 7"
  by (simp add: weekWorkouts_def Let_def)

lemma raceDayWorkout_tenths: "tenths (distanceOrZero (raceDayWorkout d))"
  by (simp add: raceDayWorkout_def distanceOrZero_def tenths_RACE_DISTANCES)

lemma weekWorkouts_tenths:
  assumes "x \<in> set (weekWorkouts w W b m rdist rpw custom prev)"
  shows "tenths (distanceOrZero x)"
  using assms
  by (auto simp add: weekWorkouts_eq Let_def generateWorkout_tenths raceDayWorkout_tenths
      split: if_splits)

lemma workouts_generateWeeklyPlan:
  "workouts (generateWeeklyPlan w W b m rdist rpw custom prev)
     = weekWorkouts w W b m rdist rpw custom prev"
  by (simp add: generateWeeklyPlan_def Let_def)

lemma totalKilometers_generateWeeklyPlan:
  "totalKilometers (generateWeeklyPlan w W b m rdist rpw custom prev)
     = round_tenth (sum_list (map distanceOrZero (weekWorkouts w W b m rdist rpw custom prev)))"
  by (simp add: generateWeeklyPlan_def Let_def foldl_add_sum_list)

lemma totalKilometers_exact:
  "totalKilometers (generateWeeklyPlan w W b m rdist rpw custom prev)
     = sum_list (map distanceOrZero (weekWorkouts w W b m rdist rpw custom prev))"
  unfolding totalKilometers_generateWeeklyPlan
  by (rule round_tenth_tenths) (rule tenths_sum_list, rule weekWorkouts_tenths)

subsection \<open>The weeks of a plan\<close>

lemma planWeeks_length: "length (planWeeks W b m rdist rpw custom n) = n"
  by (induction n) (simp_all add: Let_def)

lemma planWeeks_nth:
  "i < n \<Longrightarrow>
   planWeeks W b m rdist rpw custom n ! i =
     generateWeeklyPlan (int i + 1) W b m rdist rpw custom
       (if i = 0 then None
        else Some (totalKilometers (planWeeks W b m rdist rpw custom n ! (i - 1))))"
proof (induction n)
  case 0
  then show ?case by simp
next
  case (Suc n)
  show ?case
  proof (cases "i < n")
    case True
    then have "i - 1 < n" by simp
    with True Suc.IH show ?thesis
      by (simp add: Let_def nth_append planWeeks_length)
  next
    case False
    with Suc.prems have i: "i = n" by simp
    show ?thesis
    proof (cases n)
      case 0
      with i show ?thesis by (simp add: Let_def)
    next
      case (Suc k)
      with i show ?thesis
        by (simp add: Let_def nth_append planWeeks_length add.commute)
    qed
  qed
qed

lemma plan_generateTrainingPlan:
  "plan (generateTrainingPlan now g m ft) =
     planWeeks (getWeeksUntilRace now (goal_date g) (goal_startDate g))
       (baseWeeklyKm m (goal_distance g)) m (goal_distance g) (runsPerWeek g) (trainingDays g)
       (nat (getWeeksUntilRace now (goal_date g) (goal_startDate g)))"
  by (simp add: generateTrainingPlan_def Let_def)

subsection \<open>Bounds on the distances of a week\<close>

lemma otherRunDistance_nonneg: "0 \<le> wk \<Longrightarrow> 0 \<le> otherRunDistance wk rd"
  by (simp add: otherRunDistance_def Let_def round_tenth_nonneg)

lemma generateWorkout_nonneg:
  "0 \<le> wk \<Longrightarrow> 0 \<le> distanceOrZero (generateWorkout ph d wk m rdist rpw custom)"
  by (simp add: generateWorkout_distance round_tenth_nonneg otherRunDistance_nonneg)

lemma RACE_DISTANCES_pos: "0 < RACE_DISTANCES d"
  by (cases d) simp_all

lemma weekWorkouts_nonneg:
  assumes "0 \<le> weekVolume w W b rdist prev"
    and "x \<in> set (weekWorkouts w W b m rdist rpw custom prev)"
  shows "0 \<le> distanceOrZero x"
proof -
  have race: "0 \<le> distanceOrZero (raceDayWorkout rdist)"
    using RACE_DISTANCES_pos [of rdist] by (simp add: raceDayWorkout_def distanceOrZero_def)
  show ?thesis
    using assms race
    by (auto simp add: weekWorkouts_eq Let_def generateWorkout_nonneg split: if_splits)
qed

lemma totalKilometers_nonneg:
  assumes "0 \<le> weekVolume w W b rdist prev"
  shows "0 \<le> totalKilometers (generateWeeklyPlan w W b m rdist rpw custom prev)"
  unfolding totalKilometers_exact
  by (rule sum_list_nonneg) (auto dest: weekWorkouts_nonneg [OF assms])

lemma maxWeeklyKm_pos: "0 < maxWeeklyKm d"
  by (cases d) simp_all

lemma targetWeeklyKilometers_taper_nonneg:
  "phaseOf W w = Taper \<Longrightarrow> 0 \<le> b \<Longrightarrow> 0 \<le> targetWeeklyKilometers W w b"
  by (simp add: targetWeeklyKilometers_def Let_def)

lemma weekVolume_nonneg:
  assumes "0 \<le> b" and "\<And>p. prev = Some p \<Longrightarrow> 0 \<le> p"
  shows "0 \<le> weekVolume w W b rdist prev"
proof (cases prev)
  case None
  then show ?thesis
    using assms(1) targetWeeklyKilometers_taper_nonneg [of W w b]
    by (auto simp add: weekVolume_def truthy_def Let_def intro!: round_tenth_nonneg)
next
  case (Some p)
  with assms(2) have "0 \<le> p" by simp
  then show ?thesis
    using Some assms(1) targetWeeklyKilometers_taper_nonneg [of W w b] maxWeeklyKm_pos [of rdist]
    by (auto simp add: weekVolume_def truthy_def Let_def intro!: round_tenth_nonneg)
qed

lemma baseWeeklyKm_nonneg: "0 \<le> baseWeeklyKm m d"
  by (cases d) (simp_all add: baseWeeklyKm_def Let_def)

lemma planWeeks_total_nonneg:
  assumes "0 \<le> b"
  shows "i < n \<Longrightarrow> 0 \<le> totalKilometers (planWeeks W b m rdist rpw custom n ! i)"
proof (induction i)
  case 0
  have "0 \<le> weekVolume 1 W b rdist None"
    by (rule weekVolume_nonneg) (simp_all add: assms)
  then show ?case
    using planWeeks_nth [of 0 n W b m rdist rpw custom] 0 totalKilometers_nonneg
    by simp
next
  case (Suc i)
  then have prev: "0 \<le> totalKilometers (planWeeks W b m rdist rpw custom n ! i)" by simp
  have "0 \<le> weekVolume (int (Suc i) + 1) W b rdist
               (Some (totalKilometers (planWeeks W b m rdist rpw custom n ! i)))"
    by (rule weekVolume_nonneg) (simp_all add: assms prev)
  then show ?case
    using planWeeks_nth [OF Suc.prems, of W b m rdist rpw custom] totalKilometers_nonneg
    by simp
qed

subsection \<open>Drift of the per-day rounding\<close>

lemma sum_list_two_cases:
  "sum_list (map (\<lambda>d. if \<not> P d then (0::real) else if Q d then a else b) xs) =
     real (length (filter (\<lambda>d. P d \<and> Q d) xs)) * a
     + real (length (filter (\<lambda>d. P d \<and> \<not> Q d) xs)) * b"
  by (induction xs) (auto simp add: algebra_simps)

lemma count_long_day:
  "distinct xs \<Longrightarrow> length (filter (\<lambda>d. d \<in> A \<and> d = c) xs) \<le> 1"
proof (induction xs)
  case Nil
  then show ?case by simp
next
  case (Cons x xs)
  then have "x = c \<Longrightarrow> filter (\<lambda>d. d \<in> A \<and> d = c) xs = []"
    by (auto simp add: filter_empty_conv)
  with Cons show ?case by auto
qed

lemma count_other_days:
  assumes "distinct xs" and "rd \<noteq> []"
  shows "length (filter (\<lambda>d. d \<in> set rd \<and> d \<noteq> last rd) xs) \<le> length rd - 1"
proof -
  let ?f = "filter (\<lambda>d. d \<in> set rd \<and> d \<noteq> last rd) xs"
  have "set rd = insert (last rd) (set (butlast rd))"
  proof -
    have "set rd = set (butlast rd @ [last rd])" using assms(2) by simp
    then show ?thesis by simp
  qed
  then have sub: "set ?f \<subseteq> set (butlast rd)" by auto
  have "length ?f = card (set ?f)"
    by (rule distinct_card [symmetric]) (simp add: assms(1))
  also have "\<dots> \<le> card (set (butlast rd))"
    using sub by (simp add: card_mono)
  also have "\<dots> \<le> length (butlast rd)" by (rule card_length)
  finally show ?thesis by simp
qed

lemma count_both_days:
  "length (filter (\<lambda>d. P d \<and> Q d) xs) + length (filter (\<lambda>d. P d \<and> \<not> Q d) xs) \<le> length xs"
  by (induction xs) auto

lemma days_sum_drift:
  fixes wk :: real and xs :: "int list"
  assumes "0 \<le> wk" and dist: "distinct xs" and len: "length xs \<le> 7"
  shows "sum_list (map (\<lambda>d. distanceOrZero (generateWorkout ph d wk m rdist rpw custom)) xs)
           \<le> wk + 0.35"
proof -
  let ?rd = "runDays rpw custom"
  let ?L = "round_tenth (wk * 0.35)"
  let ?O = "otherRunDistance wk ?rd"
  let ?j = "length (filter (\<lambda>d. d \<in> set ?rd \<and> d = last ?rd) xs)"
  let ?k = "length (filter (\<lambda>d. d \<in> set ?rd \<and> d \<noteq> last ?rd) xs)"
  have sum: "sum_list (map (\<lambda>d. distanceOrZero (generateWorkout ph d wk m rdist rpw custom)) xs)
               = real ?j * ?L + real ?k * ?O"
    unfolding generateWorkout_distance
    using sum_list_two_cases [of "\<lambda>d. d \<in> set ?rd" "\<lambda>d. d = last ?rd" ?L ?O xs]
    by simp
  have j: "?j \<le> 1" using count_long_day [OF dist] .
  have k: "?k \<le> length ?rd - 1" using count_other_days [OF dist runDays_nonempty] .
  have jk: "?j + ?k \<le> 7"
    using count_both_days [of "\<lambda>d. d \<in> set ?rd" "\<lambda>d. d = last ?rd" xs] len by linarith
  have L1: "?L \<le> wk * 0.35 + 0.05" by (rule round_tenth_upper)
  have long: "real ?j * ?L \<le> wk * 0.35 + 0.05 * real ?j"
  proof (cases "?j = 0")
    case True
    then show ?thesis using assms(1) by simp
  next
    case False
    with j have "?j = 1" by linarith
    then show ?thesis using L1 by simp
  qed
  have other: "real ?k * ?O \<le> wk * 0.65 + 0.05 * real ?k"
  proof (cases "?k = 0")
    case True
    then show ?thesis using assms(1) by simp
  next
    case False
    with k have n: "0 < length ?rd - 1" by linarith
    then have n': "0 < int (length ?rd) - 1" by linarith
    let ?n = "real_of_int (int (length ?rd) - 1)"
    have npos: "0 < ?n" using n' by simp
    have kn: "real ?k \<le> ?n" using k n by (simp add: of_nat_diff)
    have Oeq: "?O = round_tenth ((wk - wk * 0.35) / ?n)"
      unfolding otherRunDistance_def Let_def using n' by (simp only: if_True)
    have O: "?O \<le> (wk - wk * 0.35) / ?n + 0.05"
      unfolding Oeq by (rule round_tenth_upper)
    have "real ?k * ?O \<le> real ?k * ((wk - wk * 0.35) / ?n + 0.05)"
      using O by (simp add: mult_left_mono)
    also have "\<dots> = (real ?k / ?n) * (wk * 0.65) + 0.05 * real ?k"
      by (simp add: algebra_simps)
    also have "\<dots> \<le> 1 * (wk * 0.65) + 0.05 * real ?k"
    proof -
      have "real ?k / ?n \<le> 1" using kn npos by (simp add: divide_le_eq)
      then have "(real ?k / ?n) * (wk * 0.65) \<le> 1 * (wk * 0.65)"
        using assms(1) by (intro mult_right_mono) simp_all
      then show ?thesis by simp
    qed
    finally show ?thesis by simp
  qed
  have "real ?j * ?L + real ?k * ?O \<le> wk + 0.05 * real (?j + ?k)"
    using long other by (simp add: algebra_simps)
  also have "\<dots> \<le> wk + 0.05 * 7"
    using jk by (simp del: length_filter_less length_filter_le)
  finally show ?thesis using sum by simp
qed

lemma week_sum_drift:
  fixes wk :: real
  assumes "0 \<le> wk"
  shows "sum_list (map (\<lambda>d. distanceOrZero (generateWorkout ph d wk m rdist rpw custom))
           [0, 1, 2, 3, 4, 5, 6]) \<le> wk + 0.35"
  by (rule days_sum_drift [OF assms]) simp_all

lemmas week_eval =
  generateWeeklyPlan_def weekWorkouts_def weekVolume_def phaseOf_def weeksRemaining_def
  isRecoveryWeek_def targetWeeklyKilometers_def truthy_def generateWorkout_def runDays_def
  hasCustomDays_def isQualityDay_def otherRunDistance_def round_tenth_def Math_round_def
  distanceOrZero_def raceDayWorkout_def days_def phaseFocus_def at_index_def Let_def

subsection \<open>The ten-percent rule and the weekly cap\<close>

lemma round_tenth_maxWeeklyKm: "round_tenth (maxWeeklyKm d) = maxWeeklyKm d"
proof (cases d)
  case Race5K
  then show ?thesis using round_tenth_of_int [of 45] by simp
next
  case Race10K
  then show ?thesis using round_tenth_of_int [of 65] by simp
next
  case RaceHalfMarathon
  then show ?thesis using round_tenth_of_int [of 85] by simp
next
  case RaceMarathon
  then show ?thesis using round_tenth_of_int [of 110] by simp
qed

lemma weekVolume_normal_week:
  assumes "\<not> isRecoveryWeek W w" and "phaseOf W w \<noteq> Taper" and "p \<noteq> 0"
  shows "weekVolume w W b d (Some p) = round_tenth (min (p * 1.10) (maxWeeklyKm d))"
  using assms maxWeeklyKm_pos [of d] by (simp add: weekVolume_def truthy_def Let_def)

lemma not_taper_not_race_week: "phaseOf W w \<noteq> Taper \<Longrightarrow> weeksRemaining W w \<noteq> 1"
  by (auto simp add: phaseOf_def Let_def)

lemma weekWorkouts_no_race:
  "weeksRemaining W w \<noteq> 1 \<Longrightarrow>
   map distanceOrZero (weekWorkouts w W b m rdist rpw custom prev) =
     map (\<lambda>d. distanceOrZero (generateWorkout (phaseOf W w) d (weekVolume w W b rdist prev)
                                   m rdist rpw custom)) [0, 1, 2, 3, 4, 5, 6]"
  by (simp add: weekWorkouts_def Let_def)

text \<open>
  Claim C3, amended. Let week \<open>n + 1\<close> of a generated plan (index \<open>n \<ge> 1\<close>) be neither a
  recovery week nor a taper week, and let the previous week's total be defined and not
  zero. The volume handed to the workout generator is \<open>min (previous * 1.10) cap\<close> rounded
  to one decimal and is at most the cap for the race distance (45/65/85/110 km). The
  reported total is the sum of the rounded per-day distances; it exceeds that volume by
  at most 0.35 km, so it is at most \<open>previous * 1.10 + 0.4\<close> and at most \<open>cap + 0.35\<close>.
\<close>

theorem progression_ceiling_up_to_rounding:
  assumes "P = plan (generateTrainingPlan now g m ft)"
    and "W = getWeeksUntilRace now (goal_date g) (goal_startDate g)"
    and "b = baseWeeklyKm m (goal_distance g)"
    and "1 \<le> n" and "n < length P"
    and "\<not> isRecoveryWeek W (int n + 1)"
    and "phaseOf W (int n + 1) \<noteq> Taper"
    and "totalKilometers (P ! (n - 1)) \<noteq> 0"
  shows "weekVolume (int n + 1) W b (goal_distance g) (Some (totalKilometers (P ! (n - 1))))
           = round_tenth (min (totalKilometers (P ! (n - 1)) * 1.10) (maxWeeklyKm (goal_distance g)))
       \<and> weekVolume (int n + 1) W b (goal_distance g) (Some (totalKilometers (P ! (n - 1))))
           \<le> maxWeeklyKm (goal_distance g)
       \<and> totalKilometers (P ! n)
           \<le> weekVolume (int n + 1) W b (goal_distance g) (Some (totalKilometers (P ! (n - 1))))
              + 0.35
       \<and> totalKilometers (P ! n) \<le> totalKilometers (P ! (n - 1)) * 1.10 + 0.4
       \<and> totalKilometers (P ! n) \<le> maxWeeklyKm (goal_distance g) + 0.35"
proof -
  let ?d = "goal_distance g"
  let ?prev = "totalKilometers (P ! (n - 1))"
  let ?wk = "weekVolume (int n + 1) W b ?d (Some ?prev)"
  have P: "P = planWeeks W b m ?d (runsPerWeek g) (trainingDays g) (nat W)"
    using assms(1,2,3) by (simp add: plan_generateTrainingPlan)
  have len: "n < nat W" using assms(5) P by (simp add: planWeeks_length)
  have Pn: "P ! n = generateWeeklyPlan (int n + 1) W b m ?d (runsPerWeek g) (trainingDays g)
                      (Some ?prev)"
    unfolding P using planWeeks_nth [OF len] assms(4) by simp
  have b: "0 \<le> b" using assms(3) by (simp add: baseWeeklyKm_nonneg)
  have "n - 1 < nat W" using len by simp
  then have prev: "0 \<le> ?prev"
    unfolding P by (rule planWeeks_total_nonneg [OF b])
  have vol: "?wk = round_tenth (min (?prev * 1.10) (maxWeeklyKm ?d))"
    using assms(6,7,8) by (rule weekVolume_normal_week)
  have cap: "?wk \<le> maxWeeklyKm ?d"
  proof -
    have "?wk \<le> round_tenth (maxWeeklyKm ?d)"
      unfolding vol by (rule round_tenth_mono) simp
    then show ?thesis by (simp add: round_tenth_maxWeeklyKm)
  qed
  have ten: "?wk \<le> ?prev * 1.10 + 0.05"
  proof -
    have "?wk \<le> min (?prev * 1.10) (maxWeeklyKm ?d) + 0.05"
      unfolding vol by (rule round_tenth_upper)
    then show ?thesis by simp
  qed
  have wk0: "0 \<le> ?wk"
    unfolding vol using prev maxWeeklyKm_pos [of ?d] by (intro round_tenth_nonneg) simp
  have norace: "weeksRemaining W (int n + 1) \<noteq> 1"
    using assms(7) by (rule not_taper_not_race_week)
  have "totalKilometers (P ! n) =
          sum_list (map (\<lambda>d. distanceOrZero (generateWorkout (phaseOf W (int n + 1)) d ?wk m ?d
                                  (runsPerWeek g) (trainingDays g))) [0, 1, 2, 3, 4, 5, 6])"
    unfolding Pn totalKilometers_exact weekWorkouts_no_race [OF norace] ..
  then have drift: "totalKilometers (P ! n) \<le> ?wk + 0.35"
    using week_sum_drift [OF wk0] by simp
  show ?thesis using vol cap drift ten by simp
qed

subsection \<open>Reported weekly totals\<close>

text \<open>
  Claim C6. For every week of a generated plan, the week has seven workouts and its
  \<open>totalKilometers\<close> is the sum of their distances (a rest day counting 0) rounded to one
  decimal. Every distance is itself a one-decimal number, so the rounding changes
  nothing and the total is exactly that sum: whenever the phase target or the weekly
  volume handed to the workout generator differs from the per-day sum, the reported
  total differs from it too.
\<close>

theorem weekly_total_is_sum_of_workouts:
  assumes "P = plan (generateTrainingPlan now g m ft)"
    and "W = getWeeksUntilRace now (goal_date g) (goal_startDate g)"
    and "b = baseWeeklyKm m (goal_distance g)"
    and "i < length P"
    and "prev = (if i = 0 then None else Some (totalKilometers (P ! (i - 1))))"
  shows "length (workouts (P ! i)) = 7
       \<and> totalKilometers (P ! i) = round_tenth (sum_list (map distanceOrZero (workouts (P ! i))))
       \<and> totalKilometers (P ! i) = sum_list (map distanceOrZero (workouts (P ! i)))
       \<and> (targetWeeklyKilometers W (int i + 1) b \<noteq> sum_list (map distanceOrZero (workouts (P ! i)))
            \<longrightarrow> totalKilometers (P ! i) \<noteq> targetWeeklyKilometers W (int i + 1) b)
       \<and> (weekVolume (int i + 1) W b (goal_distance g) prev
              \<noteq> sum_list (map distanceOrZero (workouts (P ! i)))
            \<longrightarrow> totalKilometers (P ! i) \<noteq> weekVolume (int i + 1) W b (goal_distance g) prev)"
proof -
  have len: "i < nat W"
    using assms(1,2,4) by (simp add: plan_generateTrainingPlan planWeeks_length)
  have Pi: "P ! i = generateWeeklyPlan (int i + 1) W b m (goal_distance g) (runsPerWeek g)
                      (trainingDays g) prev"
    unfolding assms(1,5) plan_generateTrainingPlan
    using planWeeks_nth [OF len] assms(2,3) by simp
  have exact: "totalKilometers (P ! i) = sum_list (map distanceOrZero (workouts (P ! i)))"
    unfolding Pi by (simp add: totalKilometers_exact workouts_generateWeeklyPlan)
  have rounded: "totalKilometers (P ! i)
                   = round_tenth (sum_list (map distanceOrZero (workouts (P ! i))))"
    unfolding Pi by (simp add: totalKilometers_generateWeeklyPlan workouts_generateWeeklyPlan)
  have seven: "length (workouts (P ! i)) = 7"
    unfolding Pi by (simp add: workouts_generateWeeklyPlan weekWorkouts_length)
  show ?thesis using exact rounded seven by simp
qed

subsection \<open>Example plans\<close>

lemma example_metrics_12: "weeklyKilometers (calculateDetailedMetrics 1700000000000 [] 12 6 8 10) = 12"
  by (simp add: calculateDetailedMetrics_def Let_def)

lemma example_metrics_90: "weeklyKilometers (calculateDetailedMetrics 1700000000000 [] 90 5 20 16) = 90"
  by (simp add: calculateDetailedMetrics_def Let_def)

lemma example_weeks_16: "getWeeksUntilRace 1700000000000 1709676800000 None = 16"
  by (simp add: getWeeksUntilRace_def DAY_MS_def)

lemma example_weeks_13: "getWeeksUntilRace 1700000000000 1707862400000 None = 13"
  by (simp add: getWeeksUntilRace_def DAY_MS_def)

lemma example_weeks_1: "getWeeksUntilRace 1700000000000 1700604800000 None = 1"
  by (simp add: getWeeksUntilRace_def DAY_MS_def)

lemma example_plan_16:
  "plan (generateTrainingPlan 1700000000000
        \<lparr> goal_date = 1709676800000, goal_startDate = None, goal_distance = Race10K,
          goal_targetTime = None, runsPerWeek = 3, trainingDays = None \<rparr>
        (calculateDetailedMetrics 1700000000000 [] 12 6 8 10) None) = planWeeks 16 12 (calculateDetailedMetrics 1700000000000 [] 12 6 8 10) Race10K 3 None 16"
  by (simp add: plan_generateTrainingPlan example_weeks_16 baseWeeklyKm_def example_metrics_12)

lemma example_plan_16_week_1:
  "totalKilometers (planWeeks 16 12 m Race10K 3 None 16 ! 0) = 9.6"
  using planWeeks_nth [of 0 16 16 12 m Race10K 3 None]
  by (simp add: week_eval)

lemma example_plan_16_week_2:
  "totalKilometers (planWeeks 16 12 m Race10K 3 None 16 ! 1) = 10.5"
proof -
  have "planWeeks 16 12 m Race10K 3 None 16 ! 1
          = generateWeeklyPlan 2 16 12 m Race10K 3 None (Some 9.6)"
    using planWeeks_nth [of 1 16 16 12 m Race10K 3 None] example_plan_16_week_1 [of m]
    by simp
  then show ?thesis by (simp add: week_eval)
qed

text \<open>
  Claim C8, as stated, expects week 2 to report 10.56 km. With the built-in schedule for
  three runs per week, week 1 reports 9.6 km and week 2 reports 10.5 km.
\<close>

theorem week_two_reports_10_5:
  "getWeeksUntilRace 1700000000000 (goal_date \<lparr> goal_date = 1709676800000, goal_startDate = None, goal_distance = Race10K,
          goal_targetTime = None, runsPerWeek = 3, trainingDays = None \<rparr>) (goal_startDate \<lparr> goal_date = 1709676800000, goal_startDate = None, goal_distance = Race10K,
          goal_targetTime = None, runsPerWeek = 3, trainingDays = None \<rparr>) = 16
   \<and> goal_distance \<lparr> goal_date = 1709676800000, goal_startDate = None, goal_distance = Race10K,
          goal_targetTime = None, runsPerWeek = 3, trainingDays = None \<rparr> = Race10K
   \<and> weeklyKilometers (calculateDetailedMetrics 1700000000000 [] 12 6 8 10) = 12
   \<and> totalKilometers (plan (generateTrainingPlan 1700000000000
        \<lparr> goal_date = 1709676800000, goal_startDate = None, goal_distance = Race10K,
          goal_targetTime = None, runsPerWeek = 3, trainingDays = None \<rparr>
        (calculateDetailedMetrics 1700000000000 [] 12 6 8 10) None) ! 0) = 9.6
   \<and> totalKilometers (plan (generateTrainingPlan 1700000000000
        \<lparr> goal_date = 1709676800000, goal_startDate = None, goal_distance = Race10K,
          goal_targetTime = None, runsPerWeek = 3, trainingDays = None \<rparr>
        (calculateDetailedMetrics 1700000000000 [] 12 6 8 10) None) ! 1) = 10.5
   \<and> totalKilometers (plan (generateTrainingPlan 1700000000000
        \<lparr> goal_date = 1709676800000, goal_startDate = None, goal_distance = Race10K,
          goal_targetTime = None, runsPerWeek = 3, trainingDays = None \<rparr>
        (calculateDetailedMetrics 1700000000000 [] 12 6 8 10) None) ! 1) \<noteq> 10.56"
proof -
  have w1: "totalKilometers (plan (generateTrainingPlan 1700000000000
        \<lparr> goal_date = 1709676800000, goal_startDate = None, goal_distance = Race10K,
          goal_targetTime = None, runsPerWeek = 3, trainingDays = None \<rparr>
        (calculateDetailedMetrics 1700000000000 [] 12 6 8 10) None) ! 0) = 9.6"
    unfolding example_plan_16 by (rule example_plan_16_week_1)
  have w2: "totalKilometers (plan (generateTrainingPlan 1700000000000
        \<lparr> goal_date = 1709676800000, goal_startDate = None, goal_distance = Race10K,
          goal_targetTime = None, runsPerWeek = 3, trainingDays = None \<rparr>
        (calculateDetailedMetrics 1700000000000 [] 12 6 8 10) None) ! 1) = 10.5"
    unfolding example_plan_16 by (rule example_plan_16_week_2)
  show ?thesis
    unfolding w1 w2 by (simp add: example_weeks_16 example_metrics_12)
qed

text \<open>
  Claim C8, amended. For a 16-week 10K plan from a recent weekly volume of 12 km, the base
  is 12 km and week 1 is generated from a weekly volume of \<open>12 * 0.8 = 9.6\<close> km. Week 2
  is generated from week 1's reported total: when that total is not zero its weekly
  volume is \<open>min (total * 1.10) 65\<close> rounded to one decimal. What each week reports is the
  sum of its rounded per-day distances; with the built-in schedule for three runs per
  week, week 1 reports 9.6 km, week 2 has volume 10.6 km and reports 10.5 km.
\<close>

theorem first_two_weeks_of_a_16_week_10K_plan:
  assumes "getWeeksUntilRace now (goal_date g) (goal_startDate g) = 16"
    and "goal_distance g = Race10K"
    and "weeklyKilometers m = 12"
    and "P = plan (generateTrainingPlan now g m ft)"
  shows "length P = 16
       \<and> P ! 0 = generateWeeklyPlan 1 16 12 m Race10K (runsPerWeek g) (trainingDays g) None
       \<and> weekVolume 1 16 12 Race10K None = 9.6
       \<and> P ! 1 = generateWeeklyPlan 2 16 12 m Race10K (runsPerWeek g) (trainingDays g)
                    (Some (totalKilometers (P ! 0)))
       \<and> (totalKilometers (P ! 0) \<noteq> 0 \<longrightarrow>
            weekVolume 2 16 12 Race10K (Some (totalKilometers (P ! 0)))
              = round_tenth (min (totalKilometers (P ! 0) * 1.10) 65))
       \<and> (runsPerWeek g = 3 \<and> trainingDays g = None \<longrightarrow>
            totalKilometers (P ! 0) = 9.6
            \<and> weekVolume 2 16 12 Race10K (Some (totalKilometers (P ! 0))) = 10.6
            \<and> totalKilometers (P ! 1) = 10.5)"
proof -
  let ?Q = "planWeeks 16 12 m Race10K (runsPerWeek g) (trainingDays g) 16"
  have P: "P = ?Q"
    using assms by (simp add: plan_generateTrainingPlan baseWeeklyKm_def)
  have len: "length P = 16" unfolding P by (simp add: planWeeks_length)
  have w1: "P ! 0 = generateWeeklyPlan 1 16 12 m Race10K (runsPerWeek g) (trainingDays g) None"
    unfolding P using planWeeks_nth [of 0 16 16 12 m Race10K "runsPerWeek g" "trainingDays g"]
    by simp
  have v1: "weekVolume 1 16 12 Race10K None = 9.6"
    by (simp add: week_eval)
  have w2: "P ! 1 = generateWeeklyPlan 2 16 12 m Race10K (runsPerWeek g) (trainingDays g)
                      (Some (totalKilometers (P ! 0)))"
    unfolding P using planWeeks_nth [of 1 16 16 12 m Race10K "runsPerWeek g" "trainingDays g"]
    by simp
  have v2: "totalKilometers (P ! 0) \<noteq> 0 \<Longrightarrow>
            weekVolume 2 16 12 Race10K (Some (totalKilometers (P ! 0)))
              = round_tenth (min (totalKilometers (P ! 0) * 1.10) 65)"
  proof -
    assume nz: "totalKilometers (P ! 0) \<noteq> 0"
    have "\<not> isRecoveryWeek 16 2" and "phaseOf 16 2 \<noteq> Taper"
      by (simp_all add: isRecoveryWeek_def phaseOf_def weeksRemaining_def Let_def)
    then show ?thesis
      using weekVolume_normal_week [of 16 2 "totalKilometers (P ! 0)" 12 Race10K] nz by simp
  qed
  have three: "runsPerWeek g = 3 \<and> trainingDays g = None \<Longrightarrow>
            totalKilometers (P ! 0) = 9.6
            \<and> weekVolume 2 16 12 Race10K (Some (totalKilometers (P ! 0))) = 10.6
            \<and> totalKilometers (P ! 1) = 10.5"
  proof -
    assume d: "runsPerWeek g = 3 \<and> trainingDays g = None"
    have a: "totalKilometers (P ! 0) = 9.6"
      unfolding P using d example_plan_16_week_1 [of m] by simp
    have b: "totalKilometers (P ! 1) = 10.5"
      unfolding P using d example_plan_16_week_2 [of m] by simp
    have c: "weekVolume 2 16 12 Race10K (Some (totalKilometers (P ! 0))) = 10.6"
      unfolding a by (simp add: week_eval)
    show ?thesis using a b c by simp
  qed
  show ?thesis using len w1 v1 w2 v2 three by blast
qed

text \<open>An instance: the goal with three runs per week and no custom days.\<close>

theorem first_two_weeks_three_runs_per_week:
  "getWeeksUntilRace 1700000000000 (goal_date \<lparr> goal_date = 1709676800000, goal_startDate = None, goal_distance = Race10K,
          goal_targetTime = None, runsPerWeek = 3, trainingDays = None \<rparr>) (goal_startDate \<lparr> goal_date = 1709676800000, goal_startDate = None, goal_distance = Race10K,
          goal_targetTime = None, runsPerWeek = 3, trainingDays = None \<rparr>) = 16
   \<and> goal_distance \<lparr> goal_date = 1709676800000, goal_startDate = None, goal_distance = Race10K,
          goal_targetTime = None, runsPerWeek = 3, trainingDays = None \<rparr> = Race10K
   \<and> weeklyKilometers (calculateDetailedMetrics 1700000000000 [] 12 6 8 10) = 12
   \<and> runsPerWeek \<lparr> goal_date = 1709676800000, goal_startDate = None, goal_distance = Race10K,
          goal_targetTime = None, runsPerWeek = 3, trainingDays = None \<rparr> = 3 \<and> trainingDays \<lparr> goal_date = 1709676800000, goal_startDate = None, goal_distance = Race10K,
          goal_targetTime = None, runsPerWeek = 3, trainingDays = None \<rparr> = None
   \<and> totalKilometers (plan (generateTrainingPlan 1700000000000
        \<lparr> goal_date = 1709676800000, goal_startDate = None, goal_distance = Race10K,
          goal_targetTime = None, runsPerWeek = 3, trainingDays = None \<rparr>
        (calculateDetailedMetrics 1700000000000 [] 12 6 8 10) None) ! 0) \<noteq> 0
   \<and> weekVolume 2 16 12 Race10K (Some (totalKilometers (plan (generateTrainingPlan 1700000000000
        \<lparr> goal_date = 1709676800000, goal_startDate = None, goal_distance = Race10K,
          goal_targetTime = None, runsPerWeek = 3, trainingDays = None \<rparr>
        (calculateDetailedMetrics 1700000000000 [] 12 6 8 10) None) ! 0))) = 10.6"
proof -
  have h1: "getWeeksUntilRace 1700000000000 (goal_date \<lparr> goal_date = 1709676800000, goal_startDate = None, goal_distance = Race10K,
          goal_targetTime = None, runsPerWeek = 3, trainingDays = None \<rparr>) (goal_startDate \<lparr> goal_date = 1709676800000, goal_startDate = None, goal_distance = Race10K,
          goal_targetTime = None, runsPerWeek = 3, trainingDays = None \<rparr>) = 16"
    by (simp add: example_weeks_16)
  have h2: "goal_distance \<lparr> goal_date = 1709676800000, goal_startDate = None, goal_distance = Race10K,
          goal_targetTime = None, runsPerWeek = 3, trainingDays = None \<rparr> = Race10K" by simp
  have h3: "weeklyKilometers (calculateDetailedMetrics 1700000000000 [] 12 6 8 10) = 12" by (rule example_metrics_12)
  have h5: "runsPerWeek \<lparr> goal_date = 1709676800000, goal_startDate = None, goal_distance = Race10K,
          goal_targetTime = None, runsPerWeek = 3, trainingDays = None \<rparr> = 3 \<and> trainingDays \<lparr> goal_date = 1709676800000, goal_startDate = None, goal_distance = Race10K,
          goal_targetTime = None, runsPerWeek = 3, trainingDays = None \<rparr> = None" by simp
  note inst = first_two_weeks_of_a_16_week_10K_plan [OF h1 h2 h3 refl, of None]
  from inst h5 have a: "totalKilometers (plan (generateTrainingPlan 1700000000000
        \<lparr> goal_date = 1709676800000, goal_startDate = None, goal_distance = Race10K,
          goal_targetTime = None, runsPerWeek = 3, trainingDays = None \<rparr>
        (calculateDetailedMetrics 1700000000000 [] 12 6 8 10) None) ! 0) = 9.6" by blast
  from inst h5 have c: "weekVolume 2 16 12 Race10K (Some (totalKilometers (plan (generateTrainingPlan 1700000000000
        \<lparr> goal_date = 1709676800000, goal_startDate = None, goal_distance = Race10K,
          goal_targetTime = None, runsPerWeek = 3, trainingDays = None \<rparr>
        (calculateDetailedMetrics 1700000000000 [] 12 6 8 10) None) ! 0))) = 10.6"
    by blast
  have nz: "totalKilometers (plan (generateTrainingPlan 1700000000000
        \<lparr> goal_date = 1709676800000, goal_startDate = None, goal_distance = Race10K,
          goal_targetTime = None, runsPerWeek = 3, trainingDays = None \<rparr>
        (calculateDetailedMetrics 1700000000000 [] 12 6 8 10) None) ! 0) \<noteq> 0" unfolding a by simp
  show ?thesis using h1 h2 h3 h5 nz c by blast
qed

lemma example_plan_16_four_runs:
  "plan (generateTrainingPlan 1700000000000
        \<lparr> goal_date = 1709676800000, goal_startDate = None, goal_distance = Race10K,
          goal_targetTime = None, runsPerWeek = 4, trainingDays = None \<rparr>
        (calculateDetailedMetrics 1700000000000 [] 12 6 8 10) None) ! 0 = generateWeeklyPlan 1 16 12 (calculateDetailedMetrics 1700000000000 [] 12 6 8 10) Race10K 4 None None"
  using planWeeks_nth [of 0 16 16 12 "(calculateDetailedMetrics 1700000000000 [] 12 6 8 10)" Race10K 4 None]
  by (simp add: plan_generateTrainingPlan example_weeks_16 baseWeeklyKm_def example_metrics_12)

text \<open>
  An instance: in week 1 of a 16-week 10K plan from 12 km per week with four runs per
  week, the phase target and the weekly volume are 9.6 km, the workouts add up to
  9.7 km, and 9.7 km is what the week reports.
\<close>

theorem week_one_four_runs_total_differs_from_target:
  "(0::nat) < length (plan (generateTrainingPlan 1700000000000
        \<lparr> goal_date = 1709676800000, goal_startDate = None, goal_distance = Race10K,
          goal_targetTime = None, runsPerWeek = 4, trainingDays = None \<rparr>
        (calculateDetailedMetrics 1700000000000 [] 12 6 8 10) None))
   \<and> targetWeeklyKilometers 16 1 12 = 9.6
   \<and> weekVolume 1 16 12 Race10K None = 9.6
   \<and> sum_list (map distanceOrZero (workouts (plan (generateTrainingPlan 1700000000000
        \<lparr> goal_date = 1709676800000, goal_startDate = None, goal_distance = Race10K,
          goal_targetTime = None, runsPerWeek = 4, trainingDays = None \<rparr>
        (calculateDetailedMetrics 1700000000000 [] 12 6 8 10) None) ! 0))) = 9.7
   \<and> totalKilometers (plan (generateTrainingPlan 1700000000000
        \<lparr> goal_date = 1709676800000, goal_startDate = None, goal_distance = Race10K,
          goal_targetTime = None, runsPerWeek = 4, trainingDays = None \<rparr>
        (calculateDetailedMetrics 1700000000000 [] 12 6 8 10) None) ! 0) = 9.7
   \<and> totalKilometers (plan (generateTrainingPlan 1700000000000
        \<lparr> goal_date = 1709676800000, goal_startDate = None, goal_distance = Race10K,
          goal_targetTime = None, runsPerWeek = 4, trainingDays = None \<rparr>
        (calculateDetailedMetrics 1700000000000 [] 12 6 8 10) None) ! 0) \<noteq> targetWeeklyKilometers 16 1 12
   \<and> totalKilometers (plan (generateTrainingPlan 1700000000000
        \<lparr> goal_date = 1709676800000, goal_startDate = None, goal_distance = Race10K,
          goal_targetTime = None, runsPerWeek = 4, trainingDays = None \<rparr>
        (calculateDetailedMetrics 1700000000000 [] 12 6 8 10) None) ! 0) \<noteq> weekVolume 1 16 12 Race10K None"
proof -
  let ?P = "plan (generateTrainingPlan 1700000000000
        \<lparr> goal_date = 1709676800000, goal_startDate = None, goal_distance = Race10K,
          goal_targetTime = None, runsPerWeek = 4, trainingDays = None \<rparr>
        (calculateDetailedMetrics 1700000000000 [] 12 6 8 10) None)"
  have len: "(0::nat) < length ?P"
    by (simp add: plan_generateTrainingPlan example_weeks_16 planWeeks_length)
  have W: "16 = getWeeksUntilRace 1700000000000 (goal_date \<lparr> goal_date = 1709676800000, goal_startDate = None, goal_distance = Race10K,
          goal_targetTime = None, runsPerWeek = 4, trainingDays = None \<rparr>) (goal_startDate \<lparr> goal_date = 1709676800000, goal_startDate = None, goal_distance = Race10K,
          goal_targetTime = None, runsPerWeek = 4, trainingDays = None \<rparr>)"
    by (simp add: example_weeks_16)
  have b: "12 = baseWeeklyKm (calculateDetailedMetrics 1700000000000 [] 12 6 8 10) (goal_distance \<lparr> goal_date = 1709676800000, goal_startDate = None, goal_distance = Race10K,
          goal_targetTime = None, runsPerWeek = 4, trainingDays = None \<rparr>)"
    by (simp add: baseWeeklyKm_def example_metrics_12)
  have prev: "None = (if (0::nat) = 0 then None else Some (totalKilometers (?P ! (0 - 1))))"
    by simp
  note inst = weekly_total_is_sum_of_workouts [OF refl W b len prev]
  have t: "targetWeeklyKilometers 16 1 12 = 9.6"
    by (simp add: targetWeeklyKilometers_def phaseOf_def weeksRemaining_def Let_def)
  have v: "weekVolume 1 16 12 Race10K None = 9.6"
    by (simp add: week_eval)
  have s: "sum_list (map distanceOrZero (workouts (?P ! 0))) = 9.7"
    unfolding example_plan_16_four_runs by (simp add: week_eval)
  from inst have e: "totalKilometers (?P ! 0) = sum_list (map distanceOrZero (workouts (?P ! 0)))"
    by blast
  have tot: "totalKilometers (?P ! 0) = 9.7" using e s by simp
  show ?thesis
    unfolding tot s t v using len by simp
qed

subsection \<open>Plans whose reported totals pass the ceilings\<close>

lemma example_plan_13:
  "plan (generateTrainingPlan 1700000000000
        \<lparr> goal_date = 1707862400000, goal_startDate = None, goal_distance = RaceMarathon,
          goal_targetTime = None, runsPerWeek = 3, trainingDays = None \<rparr>
        (calculateDetailedMetrics 1700000000000 [] 90 5 20 16) None) = planWeeks 13 90 (calculateDetailedMetrics 1700000000000 [] 90 5 20 16) RaceMarathon 3 None 13"
  by (simp add: plan_generateTrainingPlan example_weeks_13 baseWeeklyKm_def example_metrics_90)

lemma planWeeks_step:
  assumes "j = i + 1" and "j < n"
    and "totalKilometers (planWeeks W b m rdist rpw custom n ! i) = t"
  shows "planWeeks W b m rdist rpw custom n ! j =
           generateWeeklyPlan (int j + 1) W b m rdist rpw custom (Some t)"
  using planWeeks_nth [OF assms(2), of W b m rdist rpw custom] assms(1,3) by simp

lemma example_plan_13_weeks_10_and_11:
  "totalKilometers (planWeeks 13 90 m RaceMarathon 3 None 13 ! 9) = 101.5
   \<and> totalKilometers (planWeeks 13 90 m RaceMarathon 3 None 13 ! 10) = 110.1"
proof -
  let ?P = "planWeeks 13 90 m RaceMarathon 3 None 13"
  have t0: "totalKilometers (?P ! 0) = 72"
    using planWeeks_nth [of 0 13 13 90 m RaceMarathon 3 None] by (simp add: week_eval)
  have "?P ! 1 = generateWeeklyPlan (int 1 + 1) 13 90 m RaceMarathon 3 None (Some 72)"
    by (rule planWeeks_step [OF _ _ t0]) simp_all
  then have t1: "totalKilometers (?P ! 1) = 79.1" by (simp add: week_eval)
  have "?P ! 2 = generateWeeklyPlan (int 2 + 1) 13 90 m RaceMarathon 3 None (Some 79.1)"
    by (rule planWeeks_step [OF _ _ t1]) simp_all
  then have t2: "totalKilometers (?P ! 2) = 87.1" by (simp add: week_eval)
  have "?P ! 3 = generateWeeklyPlan (int 3 + 1) 13 90 m RaceMarathon 3 None (Some 87.1)"
    by (rule planWeeks_step [OF _ _ t2]) simp_all
  then have t3: "totalKilometers (?P ! 3) = 74.1" by (simp add: week_eval)
  have "?P ! 4 = generateWeeklyPlan (int 4 + 1) 13 90 m RaceMarathon 3 None (Some 74.1)"
    by (rule planWeeks_step [OF _ _ t3]) simp_all
  then have t4: "totalKilometers (?P ! 4) = 81.5" by (simp add: week_eval)
  have "?P ! 5 = generateWeeklyPlan (int 5 + 1) 13 90 m RaceMarathon 3 None (Some 81.5)"
    by (rule planWeeks_step [OF _ _ t4]) simp_all
  then have t5: "totalKilometers (?P ! 5) = 89.8" by (simp add: week_eval)
  have "?P ! 6 = generateWeeklyPlan (int 6 + 1) 13 90 m RaceMarathon 3 None (Some 89.8)"
    by (rule planWeeks_step [OF _ _ t5]) simp_all
  then have t6: "totalKilometers (?P ! 6) = 98.8" by (simp add: week_eval)
  have "?P ! 7 = generateWeeklyPlan (int 7 + 1) 13 90 m RaceMarathon 3 None (Some 98.8)"
    by (rule planWeeks_step [OF _ _ t6]) simp_all
  then have t7: "totalKilometers (?P ! 7) = 84" by (simp add: week_eval)
  have "?P ! 8 = generateWeeklyPlan (int 8 + 1) 13 90 m RaceMarathon 3 None (Some 84)"
    by (rule planWeeks_step [OF _ _ t7]) simp_all
  then have t8: "totalKilometers (?P ! 8) = 92.3" by (simp add: week_eval)
  have "?P ! 9 = generateWeeklyPlan (int 9 + 1) 13 90 m RaceMarathon 3 None (Some 92.3)"
    by (rule planWeeks_step [OF _ _ t8]) simp_all
  then have t9: "totalKilometers (?P ! 9) = 101.5" by (simp add: week_eval)
  have "?P ! 10 = generateWeeklyPlan (int 10 + 1) 13 90 m RaceMarathon 3 None (Some 101.5)"
    by (rule planWeeks_step [OF _ _ t9]) simp_all
  then have t10: "totalKilometers (?P ! 10) = 110.1" by (simp add: week_eval)
  show ?thesis using t9 t10 by simp
qed

lemma example_weeks_5: "getWeeksUntilRace 1700000000000 1703024000000 None = 5"
  by (simp add: getWeeksUntilRace_def DAY_MS_def)

lemma example_plan_5:
  "plan (generateTrainingPlan 1700000000000
        \<lparr> goal_date = 1703024000000, goal_startDate = None, goal_distance = RaceHalfMarathon,
          goal_targetTime = None, runsPerWeek = 7, trainingDays = None \<rparr>
        (calculateDetailedMetrics 1700000000000 [] 51.6 5 20 16) None) = planWeeks 5 51.6 (calculateDetailedMetrics 1700000000000 [] 51.6 5 20 16) RaceHalfMarathon 7 None 5"
  by (simp add: plan_generateTrainingPlan example_weeks_5 baseWeeklyKm_def
      calculateDetailedMetrics_def Let_def)

lemma example_plan_5_weeks_1_and_2:
  "totalKilometers (planWeeks 5 51.6 m RaceHalfMarathon 7 None 5 ! 0) = 41.5
   \<and> totalKilometers (planWeeks 5 51.6 m RaceHalfMarathon 7 None 5 ! 1) = 46"
proof -
  let ?P = "planWeeks 5 51.6 m RaceHalfMarathon 7 None 5"
  have t0: "totalKilometers (?P ! 0) = 41.5"
    using planWeeks_nth [of 0 5 5 "51.6" m RaceHalfMarathon 7 None] by (simp add: week_eval)
  have "?P ! 1 = generateWeeklyPlan (int 1 + 1) 5 51.6 m RaceHalfMarathon 7 None (Some 41.5)"
    by (rule planWeeks_step [OF _ _ t0]) simp_all
  then have t1: "totalKilometers (?P ! 1) = 46" by (simp add: week_eval)
  show ?thesis using t0 t1 by simp
qed

text \<open>
  Claim C3, as stated, bounds the reported total by the cap itself and by 1.10 times the
  previous total. In a 13-week marathon plan from 90 km per week with three runs per
  week, week 11 is neither a recovery nor a taper week, week 10 reports 101.5 km, the
  volume of week 11 is capped at 110 km, and its three workouts (two of 35.8 km and a
  long run of 38.5 km) add up to 110.1 km, above the cap. In a 5-week half-marathon plan
  from 51.6 km per week with seven runs per week, week 1 reports 41.5 km and week 2
  reports 46 km, which is 0.35 km more than 1.10 times 41.5 km. In both plans every
  rounded value up to the week shown is the same in double arithmetic.
\<close>

theorem week_eleven_exceeds_marathon_cap:
  "getWeeksUntilRace 1700000000000 (goal_date \<lparr> goal_date = 1707862400000, goal_startDate = None, goal_distance = RaceMarathon,
          goal_targetTime = None, runsPerWeek = 3, trainingDays = None \<rparr>) (goal_startDate \<lparr> goal_date = 1707862400000, goal_startDate = None, goal_distance = RaceMarathon,
          goal_targetTime = None, runsPerWeek = 3, trainingDays = None \<rparr>) = 13
   \<and> \<not> isRecoveryWeek 13 11
   \<and> phaseOf 13 11 \<noteq> Taper
   \<and> totalKilometers (plan (generateTrainingPlan 1700000000000
        \<lparr> goal_date = 1707862400000, goal_startDate = None, goal_distance = RaceMarathon,
          goal_targetTime = None, runsPerWeek = 3, trainingDays = None \<rparr>
        (calculateDetailedMetrics 1700000000000 [] 90 5 20 16) None) ! 9) = 101.5
   \<and> totalKilometers (plan (generateTrainingPlan 1700000000000
        \<lparr> goal_date = 1707862400000, goal_startDate = None, goal_distance = RaceMarathon,
          goal_targetTime = None, runsPerWeek = 3, trainingDays = None \<rparr>
        (calculateDetailedMetrics 1700000000000 [] 90 5 20 16) None) ! 10) = 110.1
   \<and> maxWeeklyKm RaceMarathon = 110
   \<and> totalKilometers (plan (generateTrainingPlan 1700000000000
        \<lparr> goal_date = 1707862400000, goal_startDate = None, goal_distance = RaceMarathon,
          goal_targetTime = None, runsPerWeek = 3, trainingDays = None \<rparr>
        (calculateDetailedMetrics 1700000000000 [] 90 5 20 16) None) ! 10) > maxWeeklyKm (goal_distance \<lparr> goal_date = 1707862400000, goal_startDate = None, goal_distance = RaceMarathon,
          goal_targetTime = None, runsPerWeek = 3, trainingDays = None \<rparr>)
   \<and> getWeeksUntilRace 1700000000000 (goal_date \<lparr> goal_date = 1703024000000, goal_startDate = None, goal_distance = RaceHalfMarathon,
          goal_targetTime = None, runsPerWeek = 7, trainingDays = None \<rparr>) (goal_startDate \<lparr> goal_date = 1703024000000, goal_startDate = None, goal_distance = RaceHalfMarathon,
          goal_targetTime = None, runsPerWeek = 7, trainingDays = None \<rparr>) = 5
   \<and> \<not> isRecoveryWeek 5 2
   \<and> phaseOf 5 2 \<noteq> Taper
   \<and> totalKilometers (plan (generateTrainingPlan 1700000000000
        \<lparr> goal_date = 1703024000000, goal_startDate = None, goal_distance = RaceHalfMarathon,
          goal_targetTime = None, runsPerWeek = 7, trainingDays = None \<rparr>
        (calculateDetailedMetrics 1700000000000 [] 51.6 5 20 16) None) ! 0) = 41.5
   \<and> totalKilometers (plan (generateTrainingPlan 1700000000000
        \<lparr> goal_date = 1703024000000, goal_startDate = None, goal_distance = RaceHalfMarathon,
          goal_targetTime = None, runsPerWeek = 7, trainingDays = None \<rparr>
        (calculateDetailedMetrics 1700000000000 [] 51.6 5 20 16) None) ! 1) = 46
   \<and> totalKilometers (plan (generateTrainingPlan 1700000000000
        \<lparr> goal_date = 1703024000000, goal_startDate = None, goal_distance = RaceHalfMarathon,
          goal_targetTime = None, runsPerWeek = 7, trainingDays = None \<rparr>
        (calculateDetailedMetrics 1700000000000 [] 51.6 5 20 16) None) ! 1) > totalKilometers (plan (generateTrainingPlan 1700000000000
        \<lparr> goal_date = 1703024000000, goal_startDate = None, goal_distance = RaceHalfMarathon,
          goal_targetTime = None, runsPerWeek = 7, trainingDays = None \<rparr>
        (calculateDetailedMetrics 1700000000000 [] 51.6 5 20 16) None) ! 0) * 1.10 + 0.3"
proof -
  have a: "totalKilometers (plan (generateTrainingPlan 1700000000000
        \<lparr> goal_date = 1707862400000, goal_startDate = None, goal_distance = RaceMarathon,
          goal_targetTime = None, runsPerWeek = 3, trainingDays = None \<rparr>
        (calculateDetailedMetrics 1700000000000 [] 90 5 20 16) None) ! 9) = 101.5"
    unfolding example_plan_13 using example_plan_13_weeks_10_and_11 by blast
  have b: "totalKilometers (plan (generateTrainingPlan 1700000000000
        \<lparr> goal_date = 1707862400000, goal_startDate = None, goal_distance = RaceMarathon,
          goal_targetTime = None, runsPerWeek = 3, trainingDays = None \<rparr>
        (calculateDetailedMetrics 1700000000000 [] 90 5 20 16) None) ! 10) = 110.1"
    unfolding example_plan_13 using example_plan_13_weeks_10_and_11 by blast
  have c: "totalKilometers (plan (generateTrainingPlan 1700000000000
        \<lparr> goal_date = 1703024000000, goal_startDate = None, goal_distance = RaceHalfMarathon,
          goal_targetTime = None, runsPerWeek = 7, trainingDays = None \<rparr>
        (calculateDetailedMetrics 1700000000000 [] 51.6 5 20 16) None) ! 0) = 41.5"
    unfolding example_plan_5 using example_plan_5_weeks_1_and_2 by blast
  have d: "totalKilometers (plan (generateTrainingPlan 1700000000000
        \<lparr> goal_date = 1703024000000, goal_startDate = None, goal_distance = RaceHalfMarathon,
          goal_targetTime = None, runsPerWeek = 7, trainingDays = None \<rparr>
        (calculateDetailedMetrics 1700000000000 [] 51.6 5 20 16) None) ! 1) = 46"
    unfolding example_plan_5 using example_plan_5_weeks_1_and_2 by blast
  show ?thesis
    unfolding a b c d
    by (simp add: example_weeks_13 example_weeks_5 isRecoveryWeek_def phaseOf_def
        weeksRemaining_def Let_def)
qed

text \<open>An instance: week 2 of the 16-week 10K plan with three runs per week.\<close>

theorem progression_ceiling_week_two:
  "(1::nat) \<le> 1 \<and> (1::nat) < length (plan (generateTrainingPlan 1700000000000
        \<lparr> goal_date = 1709676800000, goal_startDate = None, goal_distance = Race10K,
          goal_targetTime = None, runsPerWeek = 3, trainingDays = None \<rparr>
        (calculateDetailedMetrics 1700000000000 [] 12 6 8 10) None))
   \<and> \<not> isRecoveryWeek 16 2
   \<and> phaseOf 16 2 \<noteq> Taper
   \<and> totalKilometers (plan (generateTrainingPlan 1700000000000
        \<lparr> goal_date = 1709676800000, goal_startDate = None, goal_distance = Race10K,
          goal_targetTime = None, runsPerWeek = 3, trainingDays = None \<rparr>
        (calculateDetailedMetrics 1700000000000 [] 12 6 8 10) None) ! 0) \<noteq> 0
   \<and> totalKilometers (plan (generateTrainingPlan 1700000000000
        \<lparr> goal_date = 1709676800000, goal_startDate = None, goal_distance = Race10K,
          goal_targetTime = None, runsPerWeek = 3, trainingDays = None \<rparr>
        (calculateDetailedMetrics 1700000000000 [] 12 6 8 10) None) ! 1) \<le> totalKilometers (plan (generateTrainingPlan 1700000000000
        \<lparr> goal_date = 1709676800000, goal_startDate = None, goal_distance = Race10K,
          goal_targetTime = None, runsPerWeek = 3, trainingDays = None \<rparr>
        (calculateDetailedMetrics 1700000000000 [] 12 6 8 10) None) ! 0) * 1.10 + 0.4
   \<and> totalKilometers (plan (generateTrainingPlan 1700000000000
        \<lparr> goal_date = 1709676800000, goal_startDate = None, goal_distance = Race10K,
          goal_targetTime = None, runsPerWeek = 3, trainingDays = None \<rparr>
        (calculateDetailedMetrics 1700000000000 [] 12 6 8 10) None) ! 1) \<le> 65 + 0.35"
proof -
  let ?P = "plan (generateTrainingPlan 1700000000000
        \<lparr> goal_date = 1709676800000, goal_startDate = None, goal_distance = Race10K,
          goal_targetTime = None, runsPerWeek = 3, trainingDays = None \<rparr>
        (calculateDetailedMetrics 1700000000000 [] 12 6 8 10) None)"
  have W: "16 = getWeeksUntilRace 1700000000000 (goal_date \<lparr> goal_date = 1709676800000, goal_startDate = None, goal_distance = Race10K,
          goal_targetTime = None, runsPerWeek = 3, trainingDays = None \<rparr>) (goal_startDate \<lparr> goal_date = 1709676800000, goal_startDate = None, goal_distance = Race10K,
          goal_targetTime = None, runsPerWeek = 3, trainingDays = None \<rparr>)"
    by (simp add: example_weeks_16)
  have b: "12 = baseWeeklyKm (calculateDetailedMetrics 1700000000000 [] 12 6 8 10) (goal_distance \<lparr> goal_date = 1709676800000, goal_startDate = None, goal_distance = Race10K,
          goal_targetTime = None, runsPerWeek = 3, trainingDays = None \<rparr>)"
    by (simp add: baseWeeklyKm_def example_metrics_12)
  have one: "(1::nat) \<le> 1" by simp
  have len: "(1::nat) < length ?P"
    by (simp add: plan_generateTrainingPlan example_weeks_16 planWeeks_length)
  have rec: "\<not> isRecoveryWeek 16 (int 1 + 1)"
    by (simp add: isRecoveryWeek_def weeksRemaining_def)
  have ph: "phaseOf 16 (int 1 + 1) \<noteq> Taper"
    by (simp add: phaseOf_def weeksRemaining_def Let_def)
  have t0: "totalKilometers (?P ! 0) = 9.6"
    unfolding example_plan_16 by (rule example_plan_16_week_1)
  have nz: "totalKilometers (?P ! (1 - 1)) \<noteq> 0" using t0 by simp
  note inst = progression_ceiling_up_to_rounding [OF refl W b one len rec ph nz]
  from inst have ten: "totalKilometers (?P ! 1) \<le> totalKilometers (?P ! (1 - 1)) * 1.10 + 0.4"
    by blast
  from inst have cap: "totalKilometers (?P ! 1) \<le> maxWeeklyKm (goal_distance \<lparr> goal_date = 1709676800000, goal_startDate = None, goal_distance = Race10K,
          goal_targetTime = None, runsPerWeek = 3, trainingDays = None \<rparr>) + 0.35"
    by blast
  show ?thesis using one len rec ph nz ten cap by simp
qed

subsection \<open>The race week\<close>

lemma race_week_workouts:
  assumes "weeksRemaining W w = 1"
  shows "weekWorkouts w W b m rdist rpw custom prev =
    [generateWorkout (phaseOf W w) 0 (weekVolume w W b rdist prev) m rdist rpw custom,
     generateWorkout (phaseOf W w) 1 (weekVolume w W b rdist prev) m rdist rpw custom,
     generateWorkout (phaseOf W w) 2 (weekVolume w W b rdist prev) m rdist rpw custom,
     generateWorkout (phaseOf W w) 3 (weekVolume w W b rdist prev) m rdist rpw custom,
     generateWorkout (phaseOf W w) 4 (weekVolume w W b rdist prev) m rdist rpw custom,
     generateWorkout (phaseOf W w) 5 (weekVolume w W b rdist prev) m rdist rpw custom,
     raceDayWorkout rdist]"
  using assms by (simp add: weekWorkouts_eq Let_def)

lemma runDays_default_last: "last (runDays rpw None) = 6"
  by (simp add: runDays_def hasCustomDays_def)

lemma race_week_properties:
  assumes "weeksRemaining W w = 1"
  shows "length (weekWorkouts w W b m rdist rpw custom prev) = 7"
    and "weekWorkouts w W b m rdist rpw custom prev ! 6 = raceDayWorkout rdist"
    and "length (filter (\<lambda>x. w_type x = RaceDay) (weekWorkouts w W b m rdist rpw custom prev)) = 1"
    and "last (runDays rpw custom) = 6 \<Longrightarrow>
         \<forall>x \<in> set (weekWorkouts w W b m rdist rpw custom prev). w_type x \<noteq> LongRun"
proof -
  note ws = race_week_workouts [OF assms, of b m rdist rpw custom prev]
  show "length (weekWorkouts w W b m rdist rpw custom prev) = 7"
    by (simp add: weekWorkouts_length)
  show "weekWorkouts w W b m rdist rpw custom prev ! 6 = raceDayWorkout rdist"
    unfolding ws by simp
  show "length (filter (\<lambda>x. w_type x = RaceDay) (weekWorkouts w W b m rdist rpw custom prev)) = 1"
    unfolding ws by (simp add: generateWorkout_type raceDayWorkout_def)
  show "\<forall>x \<in> set (weekWorkouts w W b m rdist rpw custom prev). w_type x \<noteq> LongRun"
    if "last (runDays rpw custom) = 6"
    unfolding ws using that by (simp add: generateWorkout_long_run_iff raceDayWorkout_def)
qed

text \<open>
  Claim C2, as stated, puts the Race Day workout on the long-run day also for a custom
  day list. In a one-week 10K plan with custom days \<open>[0, 2, 4]\<close> the long-run day is
  day 4: the week keeps its Long Run there and has the Race Day workout as its seventh
  workout.
\<close>

theorem race_day_stays_on_sunday_with_custom_days:
  "getWeeksUntilRace 1700000000000 (goal_date \<lparr> goal_date = 1700604800000, goal_startDate = None, goal_distance = Race10K,
          goal_targetTime = None, runsPerWeek = 3, trainingDays = Some [0, 2, 4] \<rparr>) (goal_startDate \<lparr> goal_date = 1700604800000, goal_startDate = None, goal_distance = Race10K,
          goal_targetTime = None, runsPerWeek = 3, trainingDays = Some [0, 2, 4] \<rparr>) = 1
   \<and> last (runDays 3 (Some [0, 2, 4])) = 4
   \<and> map w_type (workouts (plan (generateTrainingPlan 1700000000000
        \<lparr> goal_date = 1700604800000, goal_startDate = None, goal_distance = Race10K,
          goal_targetTime = None, runsPerWeek = 3, trainingDays = Some [0, 2, 4] \<rparr>
        (calculateDetailedMetrics 1700000000000 [] 12 6 8 10) None) ! 0))
       = [EasyRun, Rest, EasyRun, Rest, LongRun, Rest, RaceDay]
   \<and> w_type (workouts (plan (generateTrainingPlan 1700000000000
        \<lparr> goal_date = 1700604800000, goal_startDate = None, goal_distance = Race10K,
          goal_targetTime = None, runsPerWeek = 3, trainingDays = Some [0, 2, 4] \<rparr>
        (calculateDetailedMetrics 1700000000000 [] 12 6 8 10) None) ! 0) ! 4) \<noteq> RaceDay"
proof -
  have "plan (generateTrainingPlan 1700000000000
        \<lparr> goal_date = 1700604800000, goal_startDate = None, goal_distance = Race10K,
          goal_targetTime = None, runsPerWeek = 3, trainingDays = Some [0, 2, 4] \<rparr>
        (calculateDetailedMetrics 1700000000000 [] 12 6 8 10) None) = planWeeks 1 12 (calculateDetailedMetrics 1700000000000 [] 12 6 8 10) Race10K 3 (Some [0, 2, 4]) 1"
    by (simp add: plan_generateTrainingPlan example_weeks_1 baseWeeklyKm_def example_metrics_12)
  then have w: "plan (generateTrainingPlan 1700000000000
        \<lparr> goal_date = 1700604800000, goal_startDate = None, goal_distance = Race10K,
          goal_targetTime = None, runsPerWeek = 3, trainingDays = Some [0, 2, 4] \<rparr>
        (calculateDetailedMetrics 1700000000000 [] 12 6 8 10) None) ! 0 = generateWeeklyPlan 1 1 12 (calculateDetailedMetrics 1700000000000 [] 12 6 8 10) Race10K 3 (Some [0, 2, 4]) None"
    using planWeeks_nth [of 0 1 1 12 "(calculateDetailedMetrics 1700000000000 [] 12 6 8 10)" Race10K 3 "Some [0, 2, 4]"] by simp
  have t: "map w_type (workouts (generateWeeklyPlan 1 1 12 (calculateDetailedMetrics 1700000000000 [] 12 6 8 10) Race10K 3 (Some [0, 2, 4]) None))
       = [EasyRun, Rest, EasyRun, Rest, LongRun, Rest, RaceDay]"
    by (simp add: week_eval)
  have l: "last (runDays 3 (Some [0, 2, 4])) = 4"
    by (simp add: runDays_def hasCustomDays_def)
  have f: "w_type (workouts (generateWeeklyPlan 1 1 12 (calculateDetailedMetrics 1700000000000 [] 12 6 8 10) Race10K 3 (Some [0, 2, 4]) None) ! 4)
             \<noteq> RaceDay"
    by (simp add: week_eval)
  show ?thesis unfolding w using t l f by (simp add: example_weeks_1)
qed

text \<open>
  Claim C2, amended. In every generated plan with at least one week, the last week is
  the one with \<open>weeksRemaining = 1\<close>; it has seven workouts, exactly one of them of type
  Race Day, with intensity High and the canonical race distance (5/10/21.1/42.2 km).
  The Race Day workout is always the seventh workout, the one labelled Sunday. When the
  run-day list ends with day 6, as every built-in list does, that is the long-run day,
  and the week then has no Long Run.
\<close>

theorem race_week_has_one_race_day_on_sunday:
  assumes "P = plan (generateTrainingPlan now g m ft)"
    and "W = getWeeksUntilRace now (goal_date g) (goal_startDate g)"
    and "1 \<le> W"
  shows "weekNumber (last P) = W
       \<and> weeksRemaining W (weekNumber (last P)) = 1
       \<and> length (workouts (last P)) = 7
       \<and> workouts (last P) ! 6 =
           \<lparr> day = ''Sunday'', w_type = RaceDay,
             w_distance = Some (RACE_DISTANCES (goal_distance g)), intensity = High \<rparr>
       \<and> length (filter (\<lambda>x. w_type x = RaceDay) (workouts (last P))) = 1
       \<and> (last (runDays (runsPerWeek g) (trainingDays g)) = 6 \<longrightarrow>
            (\<forall>x \<in> set (workouts (last P)). w_type x \<noteq> LongRun))
       \<and> last (runDays (runsPerWeek g) None) = 6"
proof -
  let ?b = "baseWeeklyKm m (goal_distance g)"
  let ?prev = "if nat W - 1 = 0 then None else Some (totalKilometers (P ! (nat W - 1 - 1)))"
  have P: "P = planWeeks W ?b m (goal_distance g) (runsPerWeek g) (trainingDays g) (nat W)"
    using assms(1,2) by (simp add: plan_generateTrainingPlan)
  have len: "length P = nat W" unfolding P by (simp add: planWeeks_length)
  have idx: "nat W - 1 < nat W" using assms(3) by simp
  have "P \<noteq> []" using len assms(3) by auto
  then have "last P = P ! (nat W - 1)" using len by (simp add: last_conv_nth)
  also have "\<dots> = generateWeeklyPlan (int (nat W - 1) + 1) W ?b m (goal_distance g)
                     (runsPerWeek g) (trainingDays g) ?prev"
    unfolding P using planWeeks_nth [OF idx] by simp
  also have "int (nat W - 1) + 1 = W" using assms(3) by simp
  finally have lastP: "last P = generateWeeklyPlan W W ?b m (goal_distance g)
                     (runsPerWeek g) (trainingDays g) ?prev" .
  have rem: "weeksRemaining W W = 1" by (simp add: weeksRemaining_def)
  have num: "weekNumber (last P) = W" unfolding lastP by (simp add: generateWeeklyPlan_def Let_def)
  note props = race_week_properties [OF rem]
  have ws: "workouts (last P) = weekWorkouts W W ?b m (goal_distance g) (runsPerWeek g)
              (trainingDays g) ?prev"
    unfolding lastP by (rule workouts_generateWeeklyPlan)
  show ?thesis
    unfolding ws num using props rem runDays_default_last
    by (simp add: raceDayWorkout_def)
qed

text \<open>An instance: a one-week 10K plan with the built-in schedule for three runs per week.\<close>

theorem race_week_default_schedule:
  "(1::int) \<le> getWeeksUntilRace 1700000000000 (goal_date \<lparr> goal_date = 1700604800000, goal_startDate = None, goal_distance = Race10K,
          goal_targetTime = None, runsPerWeek = 3, trainingDays = None \<rparr>) (goal_startDate \<lparr> goal_date = 1700604800000, goal_startDate = None, goal_distance = Race10K,
          goal_targetTime = None, runsPerWeek = 3, trainingDays = None \<rparr>)
   \<and> last (runDays (runsPerWeek \<lparr> goal_date = 1700604800000, goal_startDate = None, goal_distance = Race10K,
          goal_targetTime = None, runsPerWeek = 3, trainingDays = None \<rparr>) (trainingDays \<lparr> goal_date = 1700604800000, goal_startDate = None, goal_distance = Race10K,
          goal_targetTime = None, runsPerWeek = 3, trainingDays = None \<rparr>)) = 6
   \<and> workouts (last (plan (generateTrainingPlan 1700000000000
        \<lparr> goal_date = 1700604800000, goal_startDate = None, goal_distance = Race10K,
          goal_targetTime = None, runsPerWeek = 3, trainingDays = None \<rparr>
        (calculateDetailedMetrics 1700000000000 [] 12 6 8 10) None))) ! 6 =
           \<lparr> day = ''Sunday'', w_type = RaceDay, w_distance = Some 10, intensity = High \<rparr>
   \<and> length (filter (\<lambda>x. w_type x = RaceDay) (workouts (last (plan (generateTrainingPlan 1700000000000
        \<lparr> goal_date = 1700604800000, goal_startDate = None, goal_distance = Race10K,
          goal_targetTime = None, runsPerWeek = 3, trainingDays = None \<rparr>
        (calculateDetailedMetrics 1700000000000 [] 12 6 8 10) None))))) = 1
   \<and> length (filter (\<lambda>x. w_type x = LongRun) (workouts (last (plan (generateTrainingPlan 1700000000000
        \<lparr> goal_date = 1700604800000, goal_startDate = None, goal_distance = Race10K,
          goal_targetTime = None, runsPerWeek = 3, trainingDays = None \<rparr>
        (calculateDetailedMetrics 1700000000000 [] 12 6 8 10) None))))) = 0"
proof -
  have h: "(1::int) \<le> getWeeksUntilRace 1700000000000 (goal_date \<lparr> goal_date = 1700604800000, goal_startDate = None, goal_distance = Race10K,
          goal_targetTime = None, runsPerWeek = 3, trainingDays = None \<rparr>) (goal_startDate \<lparr> goal_date = 1700604800000, goal_startDate = None, goal_distance = Race10K,
          goal_targetTime = None, runsPerWeek = 3, trainingDays = None \<rparr>)"
    by (simp add: example_weeks_1)
  have l: "last (runDays (runsPerWeek \<lparr> goal_date = 1700604800000, goal_startDate = None, goal_distance = Race10K,
          goal_targetTime = None, runsPerWeek = 3, trainingDays = None \<rparr>) (trainingDays \<lparr> goal_date = 1700604800000, goal_startDate = None, goal_distance = Race10K,
          goal_targetTime = None, runsPerWeek = 3, trainingDays = None \<rparr>)) = 6"
    by (simp add: runDays_default_last)
  note inst = race_week_has_one_race_day_on_sunday [OF refl refl h, of "(calculateDetailedMetrics 1700000000000 [] 12 6 8 10)" None]
  from inst l have a: "\<forall>x \<in> set (workouts (last (plan (generateTrainingPlan 1700000000000
        \<lparr> goal_date = 1700604800000, goal_startDate = None, goal_distance = Race10K,
          goal_targetTime = None, runsPerWeek = 3, trainingDays = None \<rparr>
        (calculateDetailedMetrics 1700000000000 [] 12 6 8 10) None)))). w_type x \<noteq> LongRun"
    by blast
  from inst have b: "length (filter (\<lambda>x. w_type x = RaceDay) (workouts (last (plan (generateTrainingPlan 1700000000000
        \<lparr> goal_date = 1700604800000, goal_startDate = None, goal_distance = Race10K,
          goal_targetTime = None, runsPerWeek = 3, trainingDays = None \<rparr>
        (calculateDetailedMetrics 1700000000000 [] 12 6 8 10) None))))) = 1"
    by blast
  from inst have c: "workouts (last (plan (generateTrainingPlan 1700000000000
        \<lparr> goal_date = 1700604800000, goal_startDate = None, goal_distance = Race10K,
          goal_targetTime = None, runsPerWeek = 3, trainingDays = None \<rparr>
        (calculateDetailedMetrics 1700000000000 [] 12 6 8 10) None))) ! 6 =
           \<lparr> day = ''Sunday'', w_type = RaceDay,
             w_distance = Some (RACE_DISTANCES (goal_distance \<lparr> goal_date = 1700604800000, goal_startDate = None, goal_distance = Race10K,
          goal_targetTime = None, runsPerWeek = 3, trainingDays = None \<rparr>)), intensity = High \<rparr>"
    by blast
  from a have a': "length (filter (\<lambda>x. w_type x = LongRun) (workouts (last (plan (generateTrainingPlan 1700000000000
        \<lparr> goal_date = 1700604800000, goal_startDate = None, goal_distance = Race10K,
          goal_targetTime = None, runsPerWeek = 3, trainingDays = None \<rparr>
        (calculateDetailedMetrics 1700000000000 [] 12 6 8 10) None))))) = 0"
    by (simp add: filter_empty_conv)
  show ?thesis using h l a' b c by simp
qed

subsection \<open>Pacing splits\<close>

lemma pacingLoop_distances:
  "map split_distance (pacingLoop d p s js cd ct) = map (splitDistance d) js"
  by (induction js arbitrary: cd ct) (simp_all add: Let_def)

lemma pacingLoop_times:
  "map split_targetTime (pacingLoop d p s js cd ct)
     = map (\<lambda>i. fst (splitPace d p s i) * splitDistance d i) js"
  by (induction js arbitrary: cd ct) (simp_all add: Let_def)

lemma pacingLoop_length: "length (pacingLoop d p s js cd ct) = length js"
  by (induction js arbitrary: cd ct) (simp_all add: Let_def)

lemma splitPace_even_short: "d < 21.1 \<Longrightarrow> fst (splitPace d p Even i) = p"
  by (simp add: splitPace_def Let_def)

lemma split_distances_sum:
  assumes "0 < d"
  shows "sum_list (map (splitDistance d) [1 ..< Suc (nat \<lceil>d\<rceil>)]) = d"
proof -
  let ?m = "nat \<lfloor>d\<rfloor>"
  let ?n = "nat \<lceil>d\<rceil>"
  have fl: "0 \<le> \<lfloor>d\<rfloor>" using assms by simp
  have mn: "?m \<le> ?n" by (simp add: nat_mono floor_le_ceiling)
  have whole: "(\<Sum>i = 1..<Suc ?m. splitDistance d i) = real ?m"
  proof -
    have "\<And>i. i \<in> {1..<Suc ?m} \<Longrightarrow> splitDistance d i = 1"
    proof -
      fix i assume "i \<in> {1..<Suc ?m}"
      then have "int i \<le> \<lfloor>d\<rfloor>" using fl by auto
      then have "real i \<le> real_of_int \<lfloor>d\<rfloor>" by (metis of_int_le_iff of_int_of_nat_eq)
      then show "splitDistance d i = 1" by (simp add: splitDistance_def)
    qed
    then have "(\<Sum>i = 1..<Suc ?m. splitDistance d i) = (\<Sum>i = 1..<Suc ?m. 1)"
      by (intro sum.cong) simp_all
    then show ?thesis by simp
  qed
  have part: "(\<Sum>i = Suc ?m..<Suc ?n. splitDistance d i) = real (?n - ?m) * frac d"
  proof -
    have "\<And>i. i \<in> {Suc ?m..<Suc ?n} \<Longrightarrow> splitDistance d i = frac d"
    proof -
      fix i assume "i \<in> {Suc ?m..<Suc ?n}"
      then have "\<lfloor>d\<rfloor> < int i" using fl by auto
      then have "real_of_int \<lfloor>d\<rfloor> < real i" by (metis of_int_less_iff of_int_of_nat_eq)
      then show "splitDistance d i = frac d" by (simp add: splitDistance_def)
    qed
    then have "(\<Sum>i = Suc ?m..<Suc ?n. splitDistance d i) = (\<Sum>i = Suc ?m..<Suc ?n. frac d)"
      by (intro sum.cong) simp_all
    then show ?thesis by simp
  qed
  have last: "real (?n - ?m) * frac d = frac d"
  proof (cases "d = of_int \<lfloor>d\<rfloor>")
    case True
    then have "frac d = 0" by (simp add: frac_def)
    then show ?thesis by simp
  next
    case False
    then have "\<lceil>d\<rceil> = \<lfloor>d\<rfloor> + 1" by (simp add: ceiling_altdef)
    then have "?n - ?m = 1" using fl by (simp add: nat_add_distrib)
    then show ?thesis by simp
  qed
  have "sum_list (map (splitDistance d) [1 ..< Suc ?n]) = (\<Sum>i = 1..<Suc ?n. splitDistance d i)"
    by (simp only: interv_sum_list_conv_sum_set_nat set_upt)
  also have "\<dots> = (\<Sum>i = 1..<Suc ?m. splitDistance d i) + (\<Sum>i = Suc ?m..<Suc ?n. splitDistance d i)"
    using mn by (intro sum.atLeastLessThan_concat [symmetric]) simp_all
  also have "\<dots> = real ?m + frac d" using whole part last by simp
  also have "\<dots> = d" using fl by (simp add: frac_def)
  finally show ?thesis .
qed

text \<open>
  Claim C5, amended. For every race distance \<open>d > 0\<close>, every base pace and every
  strategy, there are \<open>\<lceil>d\<rceil>\<close> splits and their distances sum to \<open>d\<close>; the strategy's
  \<open>targetTime\<close> is \<open>basePace * d\<close>; and for the even strategy on a race shorter than
  21.1 km the split times sum to that \<open>targetTime\<close>.
\<close>

theorem pacing_splits_reconstruct_totals:
  assumes "0 < d"
  shows "length (splits (generatePacingStrategy d p s)) = nat \<lceil>d\<rceil>
       \<and> sum_list (map split_distance (splits (generatePacingStrategy d p s))) = d
       \<and> targetTime (generatePacingStrategy d p s) = p * d
       \<and> (s = Even \<and> d < 21.1 \<longrightarrow>
            sum_list (map split_targetTime (splits (generatePacingStrategy d p s)))
              = targetTime (generatePacingStrategy d p s))"
proof -
  have len: "length (splits (generatePacingStrategy d p s)) = nat \<lceil>d\<rceil>"
    by (simp add: generatePacingStrategy_def pacingLoop_length del: upt_Suc)
  have dist: "sum_list (map split_distance (splits (generatePacingStrategy d p s))) = d"
    using split_distances_sum [OF assms]
    by (simp add: generatePacingStrategy_def pacingLoop_distances del: upt_Suc)
  have tt: "targetTime (generatePacingStrategy d p s) = p * d"
    by (simp add: generatePacingStrategy_def)
  have even: "s = Even \<and> d < 21.1 \<longrightarrow>
            sum_list (map split_targetTime (splits (generatePacingStrategy d p s)))
              = targetTime (generatePacingStrategy d p s)"
  proof
    assume that: "s = Even \<and> d < 21.1"
    have "map split_targetTime (splits (generatePacingStrategy d p s))
            = map (\<lambda>i. p * splitDistance d i) [1 ..< Suc (nat \<lceil>d\<rceil>)]"
      using that
      by (simp add: generatePacingStrategy_def pacingLoop_times splitPace_even_short del: upt_Suc)
    then have "sum_list (map split_targetTime (splits (generatePacingStrategy d p s)))
            = p * sum_list (map (splitDistance d) [1 ..< Suc (nat \<lceil>d\<rceil>)])"
      by (simp add: sum_list_const_mult)
    then show "sum_list (map split_targetTime (splits (generatePacingStrategy d p s)))
              = targetTime (generatePacingStrategy d p s)"
      unfolding tt using split_distances_sum [OF assms] by simp
  qed
  show ?thesis using len dist tt even by blast
qed

lemmas pacing_eval =
  generatePacingStrategy_def splitDistance_def splitPace_def Let_def

text \<open>
  Claim C5, as stated, also covers the negative and positive strategies and the races
  of 21.1 km and more. A negative split over 5 km at 5 min/km has two splits at 5.1 and
  three at 4.9 min/km: the split times sum to 24.9 minutes, while \<open>targetTime\<close> is
  25 minutes. Even pacing over 21.1 km at 5 min/km has 22 splits, the last six slowed by
  the fatigue factor: the split times sum to 232361/2200 minutes (about 105.62), while
  \<open>targetTime\<close> is 105.5 minutes. The distances sum to the race distance in both.
\<close>

theorem negative_split_over_five_km:
  "sum_list (map split_distance (splits (generatePacingStrategy 5 5 Negative))) = 5
   \<and> targetTime (generatePacingStrategy 5 5 Negative) = 25
   \<and> sum_list (map split_targetTime (splits (generatePacingStrategy 5 5 Negative))) = 24.9
   \<and> sum_list (map split_distance (splits (generatePacingStrategy 21.1 5 Even))) = 21.1
   \<and> targetTime (generatePacingStrategy 21.1 5 Even) = 105.5
   \<and> sum_list (map split_targetTime (splits (generatePacingStrategy 21.1 5 Even)))
       = 232361 / 2200
   \<and> sum_list (map split_targetTime (splits (generatePacingStrategy 21.1 5 Even)))
       > targetTime (generatePacingStrategy 21.1 5 Even) + 0.1"
proof -
  have five: "sum_list (map split_distance (splits (generatePacingStrategy 5 5 Negative))) = 5
   \<and> targetTime (generatePacingStrategy 5 5 Negative) = 25
   \<and> sum_list (map split_targetTime (splits (generatePacingStrategy 5 5 Negative))) = 24.9"
    by (simp add: pacing_eval upt_conv_Cons)
  have ceil: "nat \<lceil>21.1::real\<rceil> = 22" by simp
  have idx: "[1 ..< Suc 22] = [1, 2, 3, 4, 5, 6, 7, 8, 9, 10, 11, 12, 13, 14, 15, 16, 17, 18,
                              19, 20, 21, 22]"
    by (simp add: upt_conv_Cons)
  have hd: "sum_list (map split_distance (splits (generatePacingStrategy 21.1 5 Even))) = 21.1"
    unfolding generatePacingStrategy_def
    by (simp only: pacingLoop_distances PacingStrategy.simps ceil idx)
      (simp add: splitDistance_def frac_def)
  have ht: "sum_list (map split_targetTime (splits (generatePacingStrategy 21.1 5 Even)))
       = 232361 / 2200"
    unfolding generatePacingStrategy_def
    by (simp only: pacingLoop_times PacingStrategy.simps ceil idx)
      (simp add: splitDistance_def splitPace_def frac_def Let_def)
  have tt: "targetTime (generatePacingStrategy 21.1 5 Even) = 105.5"
    by (simp add: generatePacingStrategy_def)
  show ?thesis unfolding ht tt using five hd by simp
qed

text \<open>An instance: even pacing over 10 km at 5 min/km.\<close>

theorem even_pacing_over_ten_km:
  "(0::real) < 10
   \<and> sum_list (map split_distance (splits (generatePacingStrategy 10 5 Even))) = 10
   \<and> targetTime (generatePacingStrategy 10 5 Even) = 50
   \<and> sum_list (map split_targetTime (splits (generatePacingStrategy 10 5 Even))) = 50"
  using pacing_splits_reconstruct_totals [of 10 5 Even]
  by simp

end
